theory Spec2Isabelle
  imports Complex_Main
begin

section \<open>Conventions of the embedding\<close>

text \<open>
  The engine of \<^verbatim>\<open>backend/core/simulation.py\<close> and the evaluator of
  \<^verbatim>\<open>core_private/fire_calculations.py\<close> are embedded as HOL functions.

  \<^item> A Python \<^verbatim>\<open>float\<close> (and a number of the payload, whether it arrived as an
    integer or as a float) is a \<^typ>\<open>real\<close>: arithmetic is exact, rounding, overflow,
    infinities and NaN are not modelled.
  \<^item> A numeric key of a payload dictionary is a \<^typ>\<open>real option\<close>: \<open>None\<close> is an
    absent key. For the keys the source reads with \<^verbatim>\<open>d.get(k) or default\<close>, \<open>None\<close>
    stands for a stored \<^verbatim>\<open>None\<close> as well, since the source treats both alike there.
    Values of another kind (strings, lists, a stored \<^verbatim>\<open>None\<close> under a key read with
    \<^verbatim>\<open>d.get(k, default)\<close>) are excluded by the types.
  \<^item> \<^verbatim>\<open>int(x)\<close> on a number truncates toward zero.
  \<^item> A sub-dictionary that is absent is the record whose keys are all absent, as
    \<^verbatim>\<open>payload.get(k, {}) or {}\<close> makes it.
\<close>

definition py_int :: "real \<Rightarrow> int" where
  "py_int x = (if 0 \<le> x then \<lfloor>x\<rfloor> else \<lceil>x\<rceil>)"

text \<open>\<^verbatim>\<open>d.get(k) or dflt\<close> and \<^verbatim>\<open>d.get(k, dflt) or dflt\<close>: an absent key, \<^verbatim>\<open>None\<close> and
  the number zero are all falsy and give the default.\<close>

definition or_default :: "real option \<Rightarrow> real \<Rightarrow> real" where
  "or_default v dflt = (case v of None \<Rightarrow> dflt | Some x \<Rightarrow> if x = 0 then dflt else x)"

text \<open>\<^verbatim>\<open>d.get(k, dflt)\<close>: only an absent key gives the default.\<close>

definition get_default :: "real option \<Rightarrow> real \<Rightarrow> real" where
  "get_default v dflt = (case v of None \<Rightarrow> dflt | Some x \<Rightarrow> x)"

section \<open>The payload\<close>

record player_status =
  age :: "real option"
  savings :: "real option"
  monthly_income :: "real option"
  monthly_expense :: "real option"
  debt :: "real option"

record investment_config =
  retirement_age :: "real option"
  life_expectancy :: "real option"
  inflation_rate :: "real option"
  conservative_return_rate :: "real option"
  growth_return_rate :: "real option"
  cash_return :: "real option"
  young_growth_ratio :: "real option"
  young_conservative_ratio :: "real option"
  young_cash_reserve_ratio :: "real option"
  middle_growth_ratio :: "real option"
  middle_conservative_ratio :: "real option"
  middle_cash_reserve_ratio :: "real option"
  old_growth_ratio :: "real option"
  old_conservative_ratio :: "real option"
  old_cash_reserve_ratio :: "real option"

record salary_config =
  young_growth_rate :: "real option"

text \<open>The nested \<^verbatim>\<open>house_data\<close> dictionary of a life-planning event.\<close>

record house_data =
  house_price :: "real option"
  down_payment_ratio :: "real option"
  loan_rate :: "real option"
  loan_years :: "real option"

text \<open>The \<^verbatim>\<open>type\<close> key of an event. The source compares it with one fixed label, the
  house purchase; every other label (or none) is \<open>OtherEvent\<close>.\<close>

datatype event_type = HousePurchase | OtherEvent

record life_event =
  ev_type :: event_type
  ev_house_data :: "house_data option"

text \<open>The source looks events up under \<^verbatim>\<open>str(cur_age)\<close>: the keys of \<^verbatim>\<open>life_planning\<close>
  are the decimal renderings of ages, modelled by the ages themselves.\<close>

record payload =
  player_status :: player_status
  investment_config :: investment_config
  salary_config :: salary_config
  life_planning :: "int \<rightharpoonup> life_event list"

section \<open>The output records\<close>

record monthly_snapshot =
  ms_age :: int
  ms_month :: nat
  ms_net_worth :: real
  ms_savings :: real
  ms_debt :: real
  ms_monthly_income :: real
  ms_monthly_expense :: real
  ms_total_expense :: real
  ms_stock_investment :: real
  ms_bond_investment :: real
  ms_cash_investment :: real
  ms_real_estate_investment :: real

record yearly_snapshot =
  ys_monthly_income :: real
  ys_monthly_expense :: real
  ys_savings :: real
  ys_debt :: real
  ys_stock_investment :: real
  ys_bond_investment :: real
  ys_cash_investment :: real
  ys_net_worth :: real
  ys_yearly_withdrawn :: real
  ys_monthly_house_payment :: real

text \<open>The event log holds formatted strings in the source; an entry is modelled by the
  data the string is formatted from.\<close>

datatype log_entry =
    LogStart
  | LogParams int int int real
  | LogHouse int real real real
  | LogDone

record sim_result =
  simulation_results :: "(int \<times> yearly_snapshot) list"
  financial_results :: "monthly_snapshot list"
  event_log :: "log_entry list"

text \<open>A Python dictionary keeps its keys in insertion order; assigning to a key that
  is present replaces its value in place.\<close>

fun dict_set :: "'k \<Rightarrow> 'v \<Rightarrow> ('k \<times> 'v) list \<Rightarrow> ('k \<times> 'v) list" where
  "dict_set k v [] = [(k, v)]"
| "dict_set k v ((k', v') # kvs) =
     (if k' = k then (k, v) # kvs else (k', v') # dict_set k v kvs)"

section \<open>The mortgage amortizer\<close>

definition calculate_monthly_payment :: "real \<Rightarrow> real \<Rightarrow> int \<Rightarrow> real" where
  "calculate_monthly_payment loan_principal annual_rate years =
     (if years \<le> 0 \<or> loan_principal \<le> 0 then 0
      else loan_principal / (real_of_int years * 12))"

section \<open>The monthly projection engine\<close>

text \<open>The local variables of \<^verbatim>\<open>run_simulation\<close> that change while it runs.
  \<open>cur_savings\<close> is the local \<^verbatim>\<open>savings\<close>, \<open>cur_monthly_income\<close> and
  \<open>cur_monthly_expense\<close> are the locals \<^verbatim>\<open>monthly_income\<close> and \<^verbatim>\<open>monthly_expense\<close>,
  \<open>cur_financial_results\<close> and \<open>cur_event_log\<close> are \<^verbatim>\<open>financial_results\<close> and \<^verbatim>\<open>event_log\<close>.
  \<open>monthly_total_expense\<close> is unbound in the source until the first retirement
  month assigns it and is not read before; it starts at 0 here.\<close>

record sim_state =
  cur_age :: int
  cur_savings :: real
  cur_monthly_income :: real
  cur_monthly_expense :: real
  current_debt :: real
  monthly_house_payment :: real
  monthly_total_expense :: real
  stock_amt :: real
  bond_amt :: real
  cash_amt :: real
  cur_financial_results :: "monthly_snapshot list"
  yearly_map :: "(int \<times> yearly_snapshot) list"
  cur_event_log :: "log_entry list"

definition start_age :: "payload \<Rightarrow> int" where
  "start_age p = py_int (or_default (age (player_status p)) 25)"

definition retirement_age_of :: "payload \<Rightarrow> int" where
  "retirement_age_of p = py_int (or_default (retirement_age (investment_config p)) 65)"

definition life_expectancy_of :: "payload \<Rightarrow> int" where
  "life_expectancy_of p = py_int (or_default (life_expectancy (investment_config p)) 85)"

definition years :: "payload \<Rightarrow> int" where
  "years p = max 0 (retirement_age_of p - start_age p)"

definition years_in_retirement :: "payload \<Rightarrow> int" where
  "years_in_retirement p = max 0 (life_expectancy_of p - retirement_age_of p)"

definition inflation :: "payload \<Rightarrow> real" where
  "inflation p = or_default (inflation_rate (investment_config p)) 0.03"

definition cons_ret :: "payload \<Rightarrow> real" where
  "cons_ret p = or_default (conservative_return_rate (investment_config p)) 0.03"

definition growth_ret :: "payload \<Rightarrow> real" where
  "growth_ret p = or_default (growth_return_rate (investment_config p)) 0.07"

definition monthly_growth_ret :: "payload \<Rightarrow> real" where
  "monthly_growth_ret p = growth_ret p / 12"

definition monthly_cons_ret :: "payload \<Rightarrow> real" where
  "monthly_cons_ret p = cons_ret p / 12"

definition monthly_cash_ret :: "payload \<Rightarrow> real" where
  "monthly_cash_ret p = get_default (cash_return (investment_config p)) 0.02 / 12"

definition initial_state :: "payload \<Rightarrow> sim_state" where
  "initial_state p =
     \<lparr> cur_age = start_age p,
       cur_savings = or_default (savings (player_status p)) 0,
       cur_monthly_income = or_default (monthly_income (player_status p)) 0,
       cur_monthly_expense = or_default (monthly_expense (player_status p)) 0,
       current_debt = or_default (debt (player_status p)) 0,
       monthly_house_payment = 0,
       monthly_total_expense = 0,
       stock_amt = 0,
       bond_amt = 0,
       cash_amt = 0,
       cur_financial_results = [],
       yearly_map = [],
       cur_event_log = [LogStart,
              LogParams (start_age p) (retirement_age_of p) (life_expectancy_of p) (inflation p)] \<rparr>"

subsection \<open>House-purchase events\<close>

definition no_house_data :: house_data where
  "no_house_data =
     \<lparr> house_price = None, down_payment_ratio = None, loan_rate = None, loan_years = None \<rparr>"

definition apply_event :: "life_event \<Rightarrow> sim_state \<Rightarrow> sim_state" where
  "apply_event event st =
     (if ev_type event = HousePurchase then
        let hd = (case ev_house_data event of None \<Rightarrow> no_house_data | Some h \<Rightarrow> h);
            price = or_default (house_price hd) 0;
            down = get_default (down_payment_ratio hd) 20 / 100;
            rate = get_default (loan_rate hd) 0.03;
            term = py_int (get_default (loan_years hd) 30);
            loan_amount = price * (1 - down);
            payment = calculate_monthly_payment loan_amount rate term
        in st \<lparr> current_debt := loan_amount,
                monthly_house_payment := payment,
                cur_event_log := cur_event_log st @ [LogHouse (cur_age st) price loan_amount payment] \<rparr>
      else st)"

definition process_events :: "payload \<Rightarrow> sim_state \<Rightarrow> sim_state" where
  "process_events p st =
     (case life_planning p (cur_age st) of
        None \<Rightarrow> st
      | Some events_at_age \<Rightarrow> fold apply_event events_at_age st)"

subsection \<open>Allocation weights\<close>

definition raw_ratios :: "payload \<Rightarrow> int \<Rightarrow> real \<times> real \<times> real" where
  "raw_ratios p a =
     (let invest = investment_config p in
      if a \<le> 40 then
        (or_default (young_growth_ratio invest) 0,
         or_default (young_conservative_ratio invest) 0,
         or_default (young_cash_reserve_ratio invest) 0)
      else if a \<le> 55 then
        (or_default (middle_growth_ratio invest) 0,
         or_default (middle_conservative_ratio invest) 0,
         or_default (middle_cash_reserve_ratio invest) 0)
      else
        (or_default (old_growth_ratio invest) 0,
         or_default (old_conservative_ratio invest) 0,
         or_default (old_cash_reserve_ratio invest) 0))"

definition normalize_ratios :: "real \<times> real \<times> real \<Rightarrow> real \<times> real \<times> real" where
  "normalize_ratios t =
     (case t of (gr, cr, hr) \<Rightarrow>
        let total_ratio = gr + cr + hr in
        if total_ratio \<le> 0 then (0, 0, 1)
        else (gr / total_ratio, cr / total_ratio, hr / total_ratio))"

subsection \<open>One month and one year of accumulation\<close>

definition accum_month :: "payload \<Rightarrow> real \<times> real \<times> real \<Rightarrow> nat \<Rightarrow> sim_state \<Rightarrow> sim_state" where
  "accum_month p w m st =
     (case w of (gr, cr, hr) \<Rightarrow>
        let net_monthly_income = cur_monthly_income st - monthly_house_payment st;
            cashflow = net_monthly_income - cur_monthly_expense st;
            stock = stock_amt st * (1 + monthly_growth_ret p) + cashflow * gr;
            bond = bond_amt st * (1 + monthly_cons_ret p) + cashflow * cr;
            cash = cash_amt st * (1 + monthly_cash_ret p) + cashflow * hr;
            new_debt = (if current_debt st > 0 \<and> monthly_house_payment st > 0
                        then max 0 (current_debt st - monthly_house_payment st)
                        else current_debt st)
        in st \<lparr> stock_amt := stock, bond_amt := bond, cash_amt := cash,
                current_debt := new_debt,
                cur_financial_results := cur_financial_results st @
                  [\<lparr> ms_age = cur_age st,
                     ms_month = m + 1,
                     ms_net_worth = stock + bond + cash,
                     ms_savings = 0,
                     ms_debt = new_debt,
                     ms_monthly_income = cur_monthly_income st,
                     ms_monthly_expense = cur_monthly_expense st,
                     ms_total_expense = cur_monthly_expense st + monthly_house_payment st,
                     ms_stock_investment = stock,
                     ms_bond_investment = bond,
                     ms_cash_investment = cash,
                     ms_real_estate_investment = 0 \<rparr>] \<rparr>)"

definition accum_year :: "payload \<Rightarrow> sim_state \<Rightarrow> sim_state" where
  "accum_year p st0 =
     (let st1 = process_events p st0;
          w = normalize_ratios (raw_ratios p (cur_age st1));
          st2 = fold (accum_month p w) [0..<12] st1;
          st3 = st2 \<lparr> yearly_map := dict_set (cur_age st2)
                   \<lparr> ys_monthly_income = cur_monthly_income st2,
                     ys_monthly_expense = cur_monthly_expense st2,
                     ys_savings = 0,
                     ys_debt = current_debt st2,
                     ys_stock_investment = stock_amt st2,
                     ys_bond_investment = bond_amt st2,
                     ys_cash_investment = cash_amt st2,
                     ys_net_worth = stock_amt st2 + bond_amt st2 + cash_amt st2,
                     ys_yearly_withdrawn = 0,
                     ys_monthly_house_payment = monthly_house_payment st2 \<rparr>
                   (yearly_map st2) \<rparr>
      in st3 \<lparr> cur_age := cur_age st3 + 1,
               cur_monthly_expense := cur_monthly_expense st3 * (1 + inflation p),
               cur_monthly_income := cur_monthly_income st3 *
                  (1 + get_default (young_growth_rate (salary_config p)) 0) \<rparr>)"

subsection \<open>One month and one year of retirement\<close>

definition retire_month :: "payload \<Rightarrow> nat \<Rightarrow> sim_state \<Rightarrow> sim_state" where
  "retire_month p m st =
     (let total = cur_monthly_expense st + monthly_house_payment st;
          stock = stock_amt st * (1 + monthly_growth_ret p);
          bond = bond_amt st * (1 + monthly_cons_ret p);
          cash = cash_amt st * (1 + monthly_cash_ret p);
          new_debt = max 0 (current_debt st - monthly_house_payment st);
          (stock', bond', cash') =
            (if cash \<ge> total then (stock, bond, cash - total)
             else if cash + bond \<ge> total then (stock, bond - (total - cash), 0)
             else (max 0 (stock - (total - (cash + bond))), 0, 0));
          sav = stock' + bond' + cash'
      in st \<lparr> monthly_total_expense := total,
              stock_amt := stock', bond_amt := bond', cash_amt := cash',
              current_debt := new_debt,
              cur_savings := sav,
              cur_financial_results := cur_financial_results st @
                [\<lparr> ms_age = cur_age st,
                   ms_month = m + 1,
                   ms_net_worth = sav,
                   ms_savings = 0,
                   ms_debt = new_debt,
                   ms_monthly_income = 0,
                   ms_monthly_expense = cur_monthly_expense st,
                   ms_total_expense = total,
                   ms_stock_investment = max 0 stock',
                   ms_bond_investment = max 0 bond',
                   ms_cash_investment = max 0 cash',
                   ms_real_estate_investment = 0 \<rparr>] \<rparr>)"

definition retire_year :: "payload \<Rightarrow> sim_state \<Rightarrow> sim_state" where
  "retire_year p st0 =
     (let st2 = fold (retire_month p) [0..<12] st0;
          st3 = st2 \<lparr> yearly_map := dict_set (cur_age st2)
                   \<lparr> ys_monthly_income = 0,
                     ys_monthly_expense = cur_monthly_expense st2,
                     ys_savings = 0,
                     ys_debt = current_debt st2,
                     ys_stock_investment = max 0 (stock_amt st2),
                     ys_bond_investment = max 0 (bond_amt st2),
                     ys_cash_investment = max 0 (cash_amt st2),
                     ys_net_worth = max 0 (cur_savings st2),
                     ys_yearly_withdrawn = monthly_total_expense st2 * 12,
                     ys_monthly_house_payment = monthly_house_payment st2 \<rparr>
                   (yearly_map st2) \<rparr>;
          st4 = st3 \<lparr> cur_age := cur_age st3 + 1,
                      cur_monthly_expense := cur_monthly_expense st3 * (1 + inflation p) \<rparr>
      in if current_debt st4 \<le> 0 then st4 \<lparr> monthly_house_payment := 0 \<rparr> else st4)"

subsection \<open>The whole run\<close>

text \<open>\<^verbatim>\<open>for _ in range(n)\<close> with a body that transforms the state.\<close>

primrec repeat :: "nat \<Rightarrow> ('s \<Rightarrow> 's) \<Rightarrow> 's \<Rightarrow> 's" where
  "repeat 0 body st = st"
| "repeat (Suc n) body st = repeat n body (body st)"

definition accumulation_phase :: "payload \<Rightarrow> sim_state \<Rightarrow> sim_state" where
  "accumulation_phase p st = repeat (nat (years p)) (accum_year p) st"

definition retirement_phase :: "payload \<Rightarrow> sim_state \<Rightarrow> sim_state" where
  "retirement_phase p st =
     repeat (nat (years_in_retirement p)) (retire_year p) (st \<lparr> cur_monthly_income := 0 \<rparr>)"

definition run_simulation :: "payload \<Rightarrow> sim_result" where
  "run_simulation p =
     (let st = retirement_phase p (accumulation_phase p (initial_state p))
      in \<lparr> simulation_results = yearly_map st,
           financial_results = cur_financial_results st,
           event_log = cur_event_log st @ [LogDone] \<rparr>)"

section \<open>The FIRE evaluator\<close>

text \<open>Python raises \<^verbatim>\<open>ZeroDivisionError\<close> on a division by zero and on a zero base
  raised to a negative power; HOL's division and power are total, so both raises are
  written out.\<close>

datatype py_error = ZeroDivisionError

definition py_div :: "real \<Rightarrow> real \<Rightarrow> py_error + real" where
  "py_div x y = (if y = 0 then Inl ZeroDivisionError else Inr (x / y))"

text \<open>\<^verbatim>\<open>x ** n\<close> for a float \<open>x\<close> and an integer \<open>n\<close>.\<close>

definition py_pow :: "real \<Rightarrow> int \<Rightarrow> py_error + real" where
  "py_pow x n =
     (if 0 \<le> n then Inr (x ^ nat n)
      else if x = 0 then Inl ZeroDivisionError
      else Inr (1 / x ^ nat (- n)))"

definition calculate_growing_annuity_present_value ::
    "real \<Rightarrow> int \<Rightarrow> real \<Rightarrow> real \<Rightarrow> py_error + real" where
  "calculate_growing_annuity_present_value annual_expense n_years real_return_rate infl_rate =
     (if n_years \<le> 0 \<or> annual_expense \<le> 0 then Inr 0
      else
        let r = real_return_rate; g = infl_rate in
        if \<bar>r - g\<bar> < 1 / 1000000 then py_div (annual_expense * real_of_int n_years) (1 + r)
        else
          (case py_div (1 + g) (1 + r) of
             Inl e \<Rightarrow> Inl e
           | Inr q \<Rightarrow>
               (case py_pow q n_years of
                  Inl e \<Rightarrow> Inl e
                | Inr pw \<Rightarrow> py_div (annual_expense * (1 - pw)) (r - g))))"

definition calculate_retirement_target_growing_annuity ::
    "real \<Rightarrow> int \<Rightarrow> int \<Rightarrow> int \<Rightarrow> real \<Rightarrow> real \<Rightarrow> py_error + real" where
  "calculate_retirement_target_growing_annuity current_monthly_expense current_age
       retire_age life_exp infl_rate real_return_rate =
     (let g = infl_rate; r = real_return_rate;
          years_to_retirement = max 0 (retire_age - current_age)
      in case py_pow (1 + g) years_to_retirement of
           Inl e \<Rightarrow> Inl e
         | Inr pw \<Rightarrow>
             let retirement_annual_expense = current_monthly_expense * 12 * pw;
                 yrs_in_retirement = max 0 (life_exp - retire_age)
             in calculate_growing_annuity_present_value
                  retirement_annual_expense yrs_in_retirement r g)"

definition calculate_retirement_target_traditional_25x ::
    "real \<Rightarrow> int \<Rightarrow> int \<Rightarrow> real \<Rightarrow> py_error + real" where
  "calculate_retirement_target_traditional_25x current_monthly_expense current_age
       retire_age infl_rate =
     (let g = infl_rate;
          years_to_retirement = max 0 (retire_age - current_age)
      in case py_pow (1 + g) years_to_retirement of
           Inl e \<Rightarrow> Inl e
         | Inr pw \<Rightarrow> Inr (current_monthly_expense * 12 * pw * 25))"

text \<open>An entry of \<^verbatim>\<open>achievements\<close>: a formatted string in the source, here the age,
  the target and the net worth it is formatted from.\<close>

datatype achievement =
    GrowingAchieved int real real
  | TraditionalAchieved int real real

record retirement_summary =
  rs_age :: int
  rs_net_worth :: real
  rs_monthly_expense :: real
  rs_annual_expense :: real
  rs_safe_withdrawal :: real

text \<open>The result dictionary; \<open>retirement_status\<close> is \<open>None\<close> for the empty dictionary.\<close>

record fire_result =
  fire_age_growing :: "int option"
  fire_age_traditional :: "int option"
  fire_target_growing :: real
  fire_target_traditional :: real
  retirement_status :: "retirement_summary option"
  achievements :: "achievement list"

text \<open>The configuration values \<^verbatim>\<open>check_fire_achievement\<close> reads before it scans.\<close>

definition fire_retirement_age :: "investment_config \<Rightarrow> int" where
  "fire_retirement_age ic = py_int (or_default (retirement_age ic) 65)"

definition fire_life_expectancy :: "investment_config \<Rightarrow> int" where
  "fire_life_expectancy ic = py_int (or_default (life_expectancy ic) 85)"

definition fire_inflation :: "investment_config \<Rightarrow> real" where
  "fire_inflation ic = or_default (inflation_rate ic) 0.03"

definition fire_conservative :: "investment_config \<Rightarrow> real" where
  "fire_conservative ic = or_default (conservative_return_rate ic) 0.03"

definition fire_current_age :: "player_status \<Rightarrow> int" where
  "fire_current_age ps = py_int (or_default (age ps) 25)"

definition fire_current_monthly_expense :: "player_status \<Rightarrow> real" where
  "fire_current_monthly_expense ps = or_default (monthly_expense ps) 0"

text \<open>\<^verbatim>\<open>simulation_results.get(age_key, {}).get('net_worth', 0)\<close>.\<close>

definition net_worth_at :: "(int \<times> yearly_snapshot) list \<Rightarrow> int \<Rightarrow> real" where
  "net_worth_at sr a = (case map_of sr a of None \<Rightarrow> 0 | Some d \<Rightarrow> ys_net_worth d)"

text \<open>The two age-specific targets of one scanned age: the growing-annuity present value
  over the remaining years and 25 times the projected annual expense.\<close>

definition age_targets :: "player_status \<Rightarrow> investment_config \<Rightarrow> int \<Rightarrow> py_error + (real \<times> real)" where
  "age_targets ps ic a =
     (let remaining_life_years = fire_life_expectancy ic - a;
          years_from_now = a - fire_current_age ps
      in case py_pow (1 + fire_inflation ic) years_from_now of
           Inl e \<Rightarrow> Inl e
         | Inr pw \<Rightarrow>
             let future_expense = fire_current_monthly_expense ps * 12 * pw in
             (case calculate_growing_annuity_present_value future_expense remaining_life_years
                     (fire_conservative ic) (fire_inflation ic) of
                Inl e \<Rightarrow> Inl e
              | Inr age_fire_target_growing \<Rightarrow>
                  Inr (age_fire_target_growing, future_expense * 25)))"

text \<open>The body of the scanning loop, on the part of \<^verbatim>\<open>result\<close> the loop changes.\<close>

record scan_state =
  sc_growing :: "int option"
  sc_traditional :: "int option"
  sc_achievements :: "achievement list"

definition scan_step ::
    "(int \<times> yearly_snapshot) list \<Rightarrow> player_status \<Rightarrow> investment_config \<Rightarrow>
     int \<Rightarrow> scan_state \<Rightarrow> py_error + scan_state" where
  "scan_step sr ps ic a s =
     (let net_worth = net_worth_at sr a;
          remaining_life_years = fire_life_expectancy ic - a
      in if remaining_life_years \<le> 0 then Inr s
         else
           (case age_targets ps ic a of
              Inl e \<Rightarrow> Inl e
            | Inr (tg, tt) \<Rightarrow>
                let s1 = (if sc_growing s = None \<and> net_worth \<ge> tg
                          then s \<lparr> sc_growing := Some a,
                                  sc_achievements := sc_achievements s @ [GrowingAchieved a tg net_worth] \<rparr>
                          else s);
                    s2 = (if sc_traditional s1 = None \<and> net_worth \<ge> tt
                          then s1 \<lparr> sc_traditional := Some a,
                                   sc_achievements := sc_achievements s1 @ [TraditionalAchieved a tt net_worth] \<rparr>
                          else s1)
                in Inr s2))"

fun scan ::
    "(int \<times> yearly_snapshot) list \<Rightarrow> player_status \<Rightarrow> investment_config \<Rightarrow>
     int list \<Rightarrow> scan_state \<Rightarrow> py_error + scan_state" where
  "scan sr ps ic [] s = Inr s"
| "scan sr ps ic (a # as) s =
     (case scan_step sr ps ic a s of
        Inl e \<Rightarrow> Inl e
      | Inr s' \<Rightarrow> scan sr ps ic as s')"

text \<open>The two headline targets computed before the scan.\<close>

definition headline_targets ::
    "(int \<times> yearly_snapshot) list \<Rightarrow> player_status \<Rightarrow> investment_config \<Rightarrow>
     py_error + (real \<times> real)" where
  "headline_targets sr ps ic =
     (case map_of sr (fire_retirement_age ic) of
        Some d \<Rightarrow>
          let retirement_expenses = ys_monthly_expense d * 12;
              yrs = max 0 (fire_life_expectancy ic - fire_retirement_age ic)
          in (case calculate_growing_annuity_present_value retirement_expenses yrs
                     (fire_conservative ic) (fire_inflation ic) of
                Inl e \<Rightarrow> Inl e
              | Inr tg \<Rightarrow> Inr (tg, retirement_expenses * 25))
      | None \<Rightarrow>
          (case calculate_retirement_target_growing_annuity (fire_current_monthly_expense ps)
                  (fire_current_age ps) (fire_retirement_age ic) (fire_life_expectancy ic)
                  (fire_inflation ic) (fire_conservative ic) of
             Inl e \<Rightarrow> Inl e
           | Inr tg \<Rightarrow>
               (case calculate_retirement_target_traditional_25x (fire_current_monthly_expense ps)
                       (fire_current_age ps) (fire_retirement_age ic) (fire_inflation ic) of
                  Inl e \<Rightarrow> Inl e
                | Inr tt \<Rightarrow> Inr (tg, tt))))"

definition check_fire_achievement ::
    "(int \<times> yearly_snapshot) list \<Rightarrow> player_status \<Rightarrow> investment_config \<Rightarrow>
     py_error + fire_result" where
  "check_fire_achievement sr ps ic =
     (case headline_targets sr ps ic of
        Inl e \<Rightarrow> Inl e
      | Inr (target_growing, target_traditional) \<Rightarrow>
          (case scan sr ps ic (sort (map fst sr))
                  \<lparr> sc_growing = None, sc_traditional = None, sc_achievements = [] \<rparr> of
             Inl e \<Rightarrow> Inl e
           | Inr s \<Rightarrow>
               Inr \<lparr> fire_age_growing = sc_growing s,
                     fire_age_traditional = sc_traditional s,
                     fire_target_growing = target_growing,
                     fire_target_traditional = target_traditional,
                     retirement_status =
                       (case map_of sr (fire_retirement_age ic) of
                          None \<Rightarrow> None
                        | Some d \<Rightarrow>
                            Some \<lparr> rs_age = fire_retirement_age ic,
                                   rs_net_worth = ys_net_worth d,
                                   rs_monthly_expense = ys_monthly_expense d,
                                   rs_annual_expense = ys_monthly_expense d * 12,
                                   rs_safe_withdrawal = ys_net_worth d * 0.04 \<rparr>),
                     achievements = sc_achievements s \<rparr>))"

text \<open>A scanned key reaches a target when it has years left to the life expectancy and
  the net worth stored under it is at least the target computed for it; an age meets a
  target when it is a key of the snapshot map that reaches it.\<close>

definition hits_growing ::
    "(int \<times> yearly_snapshot) list \<Rightarrow> player_status \<Rightarrow> investment_config \<Rightarrow> int \<Rightarrow> bool" where
  "hits_growing sr ps ic a =
     (0 < fire_life_expectancy ic - a \<and>
      (case age_targets ps ic a of Inl e \<Rightarrow> False | Inr (tg, tt) \<Rightarrow> net_worth_at sr a \<ge> tg))"

definition hits_traditional ::
    "(int \<times> yearly_snapshot) list \<Rightarrow> player_status \<Rightarrow> investment_config \<Rightarrow> int \<Rightarrow> bool" where
  "hits_traditional sr ps ic a =
     (0 < fire_life_expectancy ic - a \<and>
      (case age_targets ps ic a of Inl e \<Rightarrow> False | Inr (tg, tt) \<Rightarrow> net_worth_at sr a \<ge> tt))"

definition meets_growing ::
    "(int \<times> yearly_snapshot) list \<Rightarrow> player_status \<Rightarrow> investment_config \<Rightarrow> int \<Rightarrow> bool" where
  "meets_growing sr ps ic a = (a \<in> fst ` set sr \<and> hits_growing sr ps ic a)"

definition meets_traditional ::
    "(int \<times> yearly_snapshot) list \<Rightarrow> player_status \<Rightarrow> investment_config \<Rightarrow> int \<Rightarrow> bool" where
  "meets_traditional sr ps ic a = (a \<in> fst ` set sr \<and> hits_traditional sr ps ic a)"

section \<open>Concrete inputs\<close>

text \<open>The empty dictionaries, and the payload of the repository's smoke test
  \<^verbatim>\<open>tools/smoke_test_bond_stock_cash.py\<close>.\<close>

definition no_player_status :: player_status where
  "no_player_status =
     \<lparr> age = None, savings = None, monthly_income = None, monthly_expense = None, debt = None \<rparr>"

definition no_investment_config :: investment_config where
  "no_investment_config =
     \<lparr> retirement_age = None, life_expectancy = None, inflation_rate = None,
       conservative_return_rate = None, growth_return_rate = None, cash_return = None,
       young_growth_ratio = None, young_conservative_ratio = None,
       young_cash_reserve_ratio = None,
       middle_growth_ratio = None, middle_conservative_ratio = None,
       middle_cash_reserve_ratio = None,
       old_growth_ratio = None, old_conservative_ratio = None,
       old_cash_reserve_ratio = None \<rparr>"

definition no_salary_config :: salary_config where
  "no_salary_config = \<lparr> young_growth_rate = None \<rparr>"

definition bond_stock_cash_payload :: payload where
  "bond_stock_cash_payload =
     \<lparr> player_status =
         \<lparr> age = Some 30, savings = Some 200000, monthly_income = Some 80000,
           monthly_expense = Some 40000, debt = Some 0 \<rparr>,
       investment_config =
         \<lparr> retirement_age = Some 65, life_expectancy = Some 85, inflation_rate = Some 0.03,
           conservative_return_rate = Some 0.03, growth_return_rate = Some 0.07,
           cash_return = Some 0.02,
           young_growth_ratio = Some 0.6, young_conservative_ratio = Some 0.3,
           young_cash_reserve_ratio = Some 0.1,
           middle_growth_ratio = Some 0.5, middle_conservative_ratio = Some 0.4,
           middle_cash_reserve_ratio = Some 0.1,
           old_growth_ratio = Some 0.3, old_conservative_ratio = Some 0.6,
           old_cash_reserve_ratio = Some 0.1 \<rparr>,
       salary_config = no_salary_config,
       life_planning = Map.empty \<rparr>"

text \<open>States at the start of retirement with given balances and a monthly expense of
  1200.\<close>

definition retiree_state :: "real \<Rightarrow> real \<Rightarrow> real \<Rightarrow> sim_state" where
  "retiree_state stock bond cash =
     (initial_state bond_stock_cash_payload)
       \<lparr> cur_age := 65, cur_monthly_income := 0, cur_monthly_expense := 1200,
         stock_amt := stock, bond_amt := bond, cash_amt := cash \<rparr>"

text \<open>A retirement age above the life expectancy, and one below the starting age.\<close>

definition late_retirement_payload :: payload where
  "late_retirement_payload =
     \<lparr> player_status = no_player_status \<lparr> age := Some 25 \<rparr>,
       investment_config = no_investment_config
         \<lparr> retirement_age := Some 90, life_expectancy := Some 85 \<rparr>,
       salary_config = no_salary_config,
       life_planning = Map.empty \<rparr>"

definition already_retired_payload :: payload where
  "already_retired_payload =
     \<lparr> player_status = no_player_status \<lparr> age := Some 50 \<rparr>,
       investment_config = no_investment_config
         \<lparr> retirement_age := Some 40, life_expectancy := Some 85 \<rparr>,
       salary_config = no_salary_config,
       life_planning = Map.empty \<rparr>"

text \<open>A person who spends more than the income.\<close>

definition deficit_payload :: payload where
  "deficit_payload =
     \<lparr> player_status = no_player_status
         \<lparr> age := Some 25, monthly_income := Some 30000, monthly_expense := Some 40000 \<rparr>,
       investment_config = no_investment_config
         \<lparr> retirement_age := Some 65, life_expectancy := Some 85 \<rparr>,
       salary_config = no_salary_config,
       life_planning = Map.empty \<rparr>"



text \<open>A snapshot map with three ages, stored out of order, and a person of 30 who
  spends 1000 a month.\<close>

definition year_with_net_worth :: "real \<Rightarrow> yearly_snapshot" where
  "year_with_net_worth nw =
     \<lparr> ys_monthly_income = 0, ys_monthly_expense = 0, ys_savings = 0, ys_debt = 0,
       ys_stock_investment = 0, ys_bond_investment = 0, ys_cash_investment = nw,
       ys_net_worth = nw, ys_yearly_withdrawn = 0, ys_monthly_house_payment = 0 \<rparr>"

definition three_years :: "(int \<times> yearly_snapshot) list" where
  "three_years =
     [(32, year_with_net_worth 700000), (30, year_with_net_worth 100),
      (31, year_with_net_worth 400000)]"

definition spender :: player_status where
  "spender = no_player_status \<lparr> age := Some 30, monthly_expense := Some 1000 \<rparr>"

text \<open>The smoke-test payload with weights for the young that do not add up to 1, a
  state of its run with a mortgage being serviced, and the smoke-test payload with a
  negative debt.\<close>

definition unnormalized_payload :: payload where
  "unnormalized_payload =
     bond_stock_cash_payload
       \<lparr> investment_config := (investment_config bond_stock_cash_payload)
           \<lparr> young_growth_ratio := Some 6, young_conservative_ratio := Some 3,
             young_cash_reserve_ratio := Some 1 \<rparr> \<rparr>"

definition unnormalized_mortgaged_state :: sim_state where
  "unnormalized_mortgaged_state =
     (initial_state unnormalized_payload)
       \<lparr> current_debt := 100000, monthly_house_payment := 30000 \<rparr>"

definition negative_debt_payload :: payload where
  "negative_debt_payload =
     bond_stock_cash_payload
       \<lparr> player_status := (player_status bond_stock_cash_payload) \<lparr> debt := Some (- 5) \<rparr> \<rparr>"

section \<open>Repayment schedules\<close>



section \<open>Reading the concrete inputs\<close>

lemma bsc_reads:
  "growth_ret bond_stock_cash_payload = 7/100"
  "cons_ret bond_stock_cash_payload = 3/100"
  "inflation bond_stock_cash_payload = 3/100"
  "monthly_cash_ret bond_stock_cash_payload = 1/600"
  "get_default (cash_return (investment_config bond_stock_cash_payload)) d = 1/50"
  "start_age bond_stock_cash_payload = 30"
  "retirement_age_of bond_stock_cash_payload = 65"
  "life_expectancy_of bond_stock_cash_payload = 85"
  "normalize_ratios (raw_ratios bond_stock_cash_payload 30) = (6/10, 3/10, 1/10)"
  by (simp_all add: bond_stock_cash_payload_def growth_ret_def cons_ret_def inflation_def
        monthly_cash_ret_def start_age_def retirement_age_of_def life_expectancy_of_def
        or_default_def get_default_def py_int_def raw_ratios_def normalize_ratios_def Let_def)

lemma bsc_initial:
  "cur_age (initial_state bond_stock_cash_payload) = 30"
  "cur_monthly_income (initial_state bond_stock_cash_payload) = 80000"
  "cur_monthly_expense (initial_state bond_stock_cash_payload) = 40000"
  "current_debt (initial_state bond_stock_cash_payload) = 0"
  "monthly_house_payment (initial_state bond_stock_cash_payload) = 0"
  "stock_amt (initial_state bond_stock_cash_payload) = 0"
  "bond_amt (initial_state bond_stock_cash_payload) = 0"
  "cash_amt (initial_state bond_stock_cash_payload) = 0"
  by (simp_all add: initial_state_def bsc_reads)
     (simp_all add: bond_stock_cash_payload_def or_default_def)

lemma retiree_reads:
  "cur_monthly_expense (retiree_state s b c) = 1200"
  "monthly_house_payment (retiree_state s b c) = 0"
  "stock_amt (retiree_state s b c) = s"
  "bond_amt (retiree_state s b c) = b"
  "cash_amt (retiree_state s b c) = c"
  by (simp_all add: retiree_state_def bsc_initial)

lemma late_retirement_reads:
  "start_age late_retirement_payload = 25"
  "retirement_age_of late_retirement_payload = 90"
  "life_expectancy_of late_retirement_payload = 85"
  by (simp_all add: late_retirement_payload_def no_player_status_def no_investment_config_def
        start_age_def retirement_age_of_def life_expectancy_of_def or_default_def py_int_def)

lemma already_retired_reads:
  "start_age already_retired_payload = 50"
  "retirement_age_of already_retired_payload = 40"
  "life_expectancy_of already_retired_payload = 85"
  by (simp_all add: already_retired_payload_def no_player_status_def no_investment_config_def
        start_age_def retirement_age_of_def life_expectancy_of_def or_default_def py_int_def)

section \<open>Properties of the amortizer\<close>

text \<open>
  Claim C7. \<^verbatim>\<open>calculate_monthly_payment(principal, annual_rate, years)\<close> returns
  \<open>principal / (years * 12)\<close> for every positive principal and positive term, whatever
  the annual rate is; it returns 0 when the principal or the term is not positive;
  and \<open>T * 12\<close> such payments add up to the principal \<open>P\<close> when both are positive.
\<close>

theorem calculate_monthly_payment_spec:
  "(0 < P \<and> 0 < T \<longrightarrow>
      calculate_monthly_payment P rate T = P / (real_of_int T * 12)
      \<and> calculate_monthly_payment P rate T = calculate_monthly_payment P rate' T
      \<and> (\<Sum>i < nat (T * 12). calculate_monthly_payment P rate T) = P)
   \<and> (P \<le> 0 \<or> T \<le> 0 \<longrightarrow> calculate_monthly_payment P rate T = 0)"
  by (auto simp: calculate_monthly_payment_def)

theorem calculate_monthly_payment_spec_witness:
  "calculate_monthly_payment 12000000 0.03 30 = 12000000 / (30 * 12)
   \<and> calculate_monthly_payment 12000000 0.03 30 = calculate_monthly_payment 12000000 0.05 30
   \<and> (\<Sum>i < nat (30 * 12). calculate_monthly_payment 12000000 0.03 30) = 12000000
   \<and> calculate_monthly_payment 0 0.03 30 = 0
   \<and> calculate_monthly_payment 12000000 0.03 0 = 0"
  using calculate_monthly_payment_spec [of 12000000 30 "0.03" "0.05"]
        calculate_monthly_payment_spec [of 0 30 "0.03" "0.05"]
        calculate_monthly_payment_spec [of 12000000 0 "0.03" "0.05"]
  by simp


section \<open>One month of retirement\<close>

text \<open>
  Claim C2. In every retirement month the three balances are compounded for one month
  first; then the outflow \<open>expense + house payment\<close> is withdrawn in the order cash,
  conservative, growth. If the outflow is at most the cash, only the cash decreases. If
  it exceeds the cash but not cash plus conservative, the cash becomes 0, the
  conservative balance decreases by the shortfall and growth is untouched. Otherwise
  cash and conservative become 0 and growth decreases by the remainder, clamped at 0.
\<close>

theorem retire_month_spec:
  "let outflow = cur_monthly_expense st + monthly_house_payment st;
       stock = stock_amt st * (1 + growth_ret p / 12);
       bond = bond_amt st * (1 + cons_ret p / 12);
       cash = cash_amt st * (1 + get_default (cash_return (investment_config p)) 0.02 / 12);
       st' = retire_month p m st
   in (outflow \<le> cash \<longrightarrow>
         cash_amt st' = cash - outflow \<and> bond_amt st' = bond \<and> stock_amt st' = stock)
    \<and> (cash < outflow \<and> outflow \<le> cash + bond \<longrightarrow>
         cash_amt st' = 0 \<and> bond_amt st' = bond - (outflow - cash) \<and> stock_amt st' = stock)
    \<and> (\<not> outflow \<le> cash \<and> \<not> (cash < outflow \<and> outflow \<le> cash + bond) \<longrightarrow>
         cash_amt st' = 0 \<and> bond_amt st' = 0
         \<and> stock_amt st' = max 0 (stock - (outflow - cash - bond))
         \<and> 0 \<le> stock_amt st')"
  by (auto simp: retire_month_def Let_def monthly_growth_ret_def monthly_cons_ret_def
        monthly_cash_ret_def max_def)

theorem retire_month_spec_witness:
  "(let st' = retire_month bond_stock_cash_payload 0 (retiree_state 12000 12000 6000) in
      cash_amt st' = 4810 \<and> bond_amt st' = 12030 \<and> stock_amt st' = 12070)
   \<and> (let st' = retire_month bond_stock_cash_payload 0 (retiree_state 12000 12000 600) in
      cash_amt st' = 0 \<and> bond_amt st' = 11431 \<and> stock_amt st' = 12070)
   \<and> (let st' = retire_month bond_stock_cash_payload 0 (retiree_state 12000 400 600) in
      cash_amt st' = 0 \<and> bond_amt st' = 0 \<and> stock_amt st' = 11872)
   \<and> (let st' = retire_month bond_stock_cash_payload 0 (retiree_state 120 400 600) in
      cash_amt st' = 0 \<and> bond_amt st' = 0 \<and> stock_amt st' = 0)"
  using retire_month_spec [of "retiree_state 12000 12000 6000" bond_stock_cash_payload 0]
        retire_month_spec [of "retiree_state 12000 12000 600" bond_stock_cash_payload 0]
        retire_month_spec [of "retiree_state 12000 400 600" bond_stock_cash_payload 0]
        retire_month_spec [of "retiree_state 120 400 600" bond_stock_cash_payload 0]
  by (simp add: Let_def retiree_reads bsc_reads)

section \<open>The growing-annuity present value\<close>

text \<open>
  Claim C6. \<^verbatim>\<open>calculate_growing_annuity_present_value(E0, n, r, g)\<close> returns 0 whenever
  \<open>n \<le> 0\<close> or \<open>E0 \<le> 0\<close>; otherwise it returns \<open>E0 * n / (1 + r)\<close> when
  \<open>\<bar>r - g\<bar> < 1e-6\<close> and \<open>E0 * (1 - ((1 + g) / (1 + r)) ^ n) / (r - g)\<close> when not.
  Both closed forms divide by \<open>1 + r\<close>; at \<open>r = -1\<close> they are undefined and the source
  raises \<^verbatim>\<open>ZeroDivisionError\<close>, which the last conjunct records.
\<close>

theorem growing_annuity_present_value_spec:
  "(n \<le> 0 \<or> E0 \<le> 0 \<longrightarrow> calculate_growing_annuity_present_value E0 n r g = Inr 0)
   \<and> (0 < n \<and> 0 < E0 \<and> 1 + r \<noteq> 0 \<and> \<bar>r - g\<bar> < 1 / 1000000 \<longrightarrow>
        calculate_growing_annuity_present_value E0 n r g = Inr (E0 * real_of_int n / (1 + r)))
   \<and> (0 < n \<and> 0 < E0 \<and> 1 + r \<noteq> 0 \<and> \<not> \<bar>r - g\<bar> < 1 / 1000000 \<longrightarrow>
        calculate_growing_annuity_present_value E0 n r g =
          Inr (E0 * (1 - ((1 + g) / (1 + r)) ^ nat n) / (r - g)))
   \<and> (0 < n \<and> 0 < E0 \<and> 1 + r = 0 \<longrightarrow>
        calculate_growing_annuity_present_value E0 n r g = Inl ZeroDivisionError)"
  by (auto simp: calculate_growing_annuity_present_value_def py_div_def py_pow_def Let_def)

theorem growing_annuity_present_value_spec_witness:
  "calculate_growing_annuity_present_value 1000 0 0.05 0.03 = Inr 0
   \<and> calculate_growing_annuity_present_value 0 20 0.05 0.03 = Inr 0
   \<and> calculate_growing_annuity_present_value 1030 20 0.03 0.03 = Inr 20000
   \<and> calculate_growing_annuity_present_value 100 2 1 0 = Inr 75
   \<and> calculate_growing_annuity_present_value 100 2 (- 1) 0 = Inl ZeroDivisionError"
  using growing_annuity_present_value_spec [of 0 1000 "0.05" "0.03"]
        growing_annuity_present_value_spec [of 20 0 "0.05" "0.03"]
        growing_annuity_present_value_spec [of 20 1030 "0.03" "0.03"]
        growing_annuity_present_value_spec [of 2 100 1 0]
        growing_annuity_present_value_spec [of 2 100 "- 1" 0]
  by (simp add: power2_eq_square)

section \<open>What each step leaves unchanged\<close>

lemma apply_event_frame:
  "cur_age (apply_event ev st) = cur_age st"
  "cur_savings (apply_event ev st) = cur_savings st"
  "cur_monthly_income (apply_event ev st) = cur_monthly_income st"
  "cur_monthly_expense (apply_event ev st) = cur_monthly_expense st"
  "monthly_total_expense (apply_event ev st) = monthly_total_expense st"
  "stock_amt (apply_event ev st) = stock_amt st"
  "bond_amt (apply_event ev st) = bond_amt st"
  "cash_amt (apply_event ev st) = cash_amt st"
  "cur_financial_results (apply_event ev st) = cur_financial_results st"
  "yearly_map (apply_event ev st) = yearly_map st"
  by (simp_all add: apply_event_def Let_def)

lemma fold_apply_event_frame:
  "cur_age (fold apply_event evs st) = cur_age st"
  "cur_savings (fold apply_event evs st) = cur_savings st"
  "cur_monthly_income (fold apply_event evs st) = cur_monthly_income st"
  "cur_monthly_expense (fold apply_event evs st) = cur_monthly_expense st"
  "monthly_total_expense (fold apply_event evs st) = monthly_total_expense st"
  "stock_amt (fold apply_event evs st) = stock_amt st"
  "bond_amt (fold apply_event evs st) = bond_amt st"
  "cash_amt (fold apply_event evs st) = cash_amt st"
  "cur_financial_results (fold apply_event evs st) = cur_financial_results st"
  "yearly_map (fold apply_event evs st) = yearly_map st"
  by (induction evs arbitrary: st; simp add: apply_event_frame)+

lemma process_events_frame:
  "cur_age (process_events p st) = cur_age st"
  "cur_savings (process_events p st) = cur_savings st"
  "cur_monthly_income (process_events p st) = cur_monthly_income st"
  "cur_monthly_expense (process_events p st) = cur_monthly_expense st"
  "monthly_total_expense (process_events p st) = monthly_total_expense st"
  "stock_amt (process_events p st) = stock_amt st"
  "bond_amt (process_events p st) = bond_amt st"
  "cash_amt (process_events p st) = cash_amt st"
  "cur_financial_results (process_events p st) = cur_financial_results st"
  "yearly_map (process_events p st) = yearly_map st"
  by (simp_all add: process_events_def fold_apply_event_frame split: option.split)

lemma accum_month_frame:
  "cur_age (accum_month p w m st) = cur_age st"
  "cur_savings (accum_month p w m st) = cur_savings st"
  "cur_monthly_income (accum_month p w m st) = cur_monthly_income st"
  "cur_monthly_expense (accum_month p w m st) = cur_monthly_expense st"
  "monthly_house_payment (accum_month p w m st) = monthly_house_payment st"
  "monthly_total_expense (accum_month p w m st) = monthly_total_expense st"
  "yearly_map (accum_month p w m st) = yearly_map st"
  "cur_event_log (accum_month p w m st) = cur_event_log st"
  by (cases w; simp add: accum_month_def Let_def)+

lemma fold_accum_month_frame:
  "cur_age (fold (accum_month p w) ms st) = cur_age st"
  "cur_savings (fold (accum_month p w) ms st) = cur_savings st"
  "cur_monthly_income (fold (accum_month p w) ms st) = cur_monthly_income st"
  "cur_monthly_expense (fold (accum_month p w) ms st) = cur_monthly_expense st"
  "monthly_house_payment (fold (accum_month p w) ms st) = monthly_house_payment st"
  "monthly_total_expense (fold (accum_month p w) ms st) = monthly_total_expense st"
  "yearly_map (fold (accum_month p w) ms st) = yearly_map st"
  "cur_event_log (fold (accum_month p w) ms st) = cur_event_log st"
  by (induction ms arbitrary: st; simp add: accum_month_frame)+

lemma retire_month_frame:
  "cur_age (retire_month p m st) = cur_age st"
  "cur_monthly_income (retire_month p m st) = cur_monthly_income st"
  "cur_monthly_expense (retire_month p m st) = cur_monthly_expense st"
  "monthly_house_payment (retire_month p m st) = monthly_house_payment st"
  "yearly_map (retire_month p m st) = yearly_map st"
  "cur_event_log (retire_month p m st) = cur_event_log st"
  by (simp_all add: retire_month_def Let_def split: prod.split)

lemma fold_retire_month_frame:
  "cur_age (fold (retire_month p) ms st) = cur_age st"
  "cur_monthly_income (fold (retire_month p) ms st) = cur_monthly_income st"
  "cur_monthly_expense (fold (retire_month p) ms st) = cur_monthly_expense st"
  "monthly_house_payment (fold (retire_month p) ms st) = monthly_house_payment st"
  "yearly_map (fold (retire_month p) ms st) = yearly_map st"
  "cur_event_log (fold (retire_month p) ms st) = cur_event_log st"
  by (induction ms arbitrary: st; simp add: retire_month_frame)+

subsection \<open>The number of monthly snapshots\<close>

lemma accum_month_results:
  "\<exists>snap. cur_financial_results (accum_month p w m st) = cur_financial_results st @ [snap]"
  by (cases w) (simp add: accum_month_def Let_def)

lemma retire_month_results:
  "\<exists>snap. cur_financial_results (retire_month p m st) = cur_financial_results st @ [snap]"
  by (simp add: retire_month_def Let_def split: prod.split)

lemma fold_accum_month_length:
  "length (cur_financial_results (fold (accum_month p w) ms st)) =
     length (cur_financial_results st) + length ms"
proof (induction ms arbitrary: st)
  case Nil
  show ?case by simp
next
  case (Cons m ms)
  obtain snap where "cur_financial_results (accum_month p w m st) = cur_financial_results st @ [snap]"
    using accum_month_results by blast
  with Cons show ?case by simp
qed

lemma fold_retire_month_length:
  "length (cur_financial_results (fold (retire_month p) ms st)) =
     length (cur_financial_results st) + length ms"
proof (induction ms arbitrary: st)
  case Nil
  show ?case by simp
next
  case (Cons m ms)
  obtain snap where "cur_financial_results (retire_month p m st) = cur_financial_results st @ [snap]"
    using retire_month_results by blast
  with Cons show ?case by simp
qed

lemma accum_year_length:
  "length (cur_financial_results (accum_year p st)) = length (cur_financial_results st) + 12"
  by (simp add: accum_year_def Let_def fold_accum_month_length process_events_frame)

lemma retire_year_length:
  "length (cur_financial_results (retire_year p st)) = length (cur_financial_results st) + 12"
  by (simp add: retire_year_def Let_def fold_retire_month_length)

lemma repeat_accum_year_length:
  "length (cur_financial_results (repeat n (accum_year p) st)) =
     length (cur_financial_results st) + 12 * n"
  by (induction n arbitrary: st) (simp_all add: accum_year_length)

lemma repeat_retire_year_length:
  "length (cur_financial_results (repeat n (retire_year p) st)) =
     length (cur_financial_results st) + 12 * n"
  by (induction n arbitrary: st) (simp_all add: retire_year_length)

lemma run_simulation_length:
  "length (financial_results (run_simulation p)) =
     12 * (nat (years p) + nat (years_in_retirement p))"
  by (simp add: run_simulation_def Let_def retirement_phase_def accumulation_phase_def
        repeat_retire_year_length repeat_accum_year_length initial_state_def)

section \<open>The number of simulated months\<close>

text \<open>
  Claim C8, as the code has it. A run iterates over exactly
  \<open>(max 0 (retirement_age - start_age) + max 0 (life_expectancy - retirement_age)) * 12\<close>
  months, one monthly snapshot each. That is at most
  \<open>(life_expectancy - start_age) * 12\<close> exactly when
  \<open>start_age \<le> retirement_age \<le> life_expectancy\<close>; with a retirement age above the
  life expectancy or below the starting age the two phases are clamped separately
  and the run is longer than that bound.
\<close>

theorem simulated_months:
  "length (financial_results (run_simulation p)) =
     12 * (nat (max 0 (retirement_age_of p - start_age p))
           + nat (max 0 (life_expectancy_of p - retirement_age_of p)))
   \<and> (int (length (financial_results (run_simulation p)))
         \<le> (life_expectancy_of p - start_age p) * 12
       \<longleftrightarrow> start_age p \<le> retirement_age_of p \<and> retirement_age_of p \<le> life_expectancy_of p)"
  unfolding run_simulation_length years_def years_in_retirement_def
  by (auto simp: max_def)

theorem simulated_months_counterexample:
  "\<not> (int (length (financial_results (run_simulation late_retirement_payload)))
        \<le> (life_expectancy_of late_retirement_payload - start_age late_retirement_payload) * 12)
   \<and> \<not> (int (length (financial_results (run_simulation already_retired_payload)))
        \<le> (life_expectancy_of already_retired_payload - start_age already_retired_payload) * 12)"
  by (simp add: run_simulation_length years_def years_in_retirement_def
        late_retirement_reads already_retired_reads)

theorem simulated_months_witness:
  "length (financial_results (run_simulation bond_stock_cash_payload)) = 660
   \<and> int (length (financial_results (run_simulation bond_stock_cash_payload)))
        \<le> (life_expectancy_of bond_stock_cash_payload - start_age bond_stock_cash_payload) * 12
   \<and> start_age bond_stock_cash_payload \<le> retirement_age_of bond_stock_cash_payload
   \<and> retirement_age_of bond_stock_cash_payload \<le> life_expectancy_of bond_stock_cash_payload"
  using simulated_months [of bond_stock_cash_payload]
  by (simp add: bsc_reads)

section \<open>The savings of the payload\<close>

lemma apply_event_savings:
  "apply_event ev (st \<lparr> cur_savings := x \<rparr>) = (apply_event ev st) \<lparr> cur_savings := x \<rparr>"
  by (simp add: apply_event_def Let_def)

lemma fold_apply_event_savings:
  "fold apply_event evs (st \<lparr> cur_savings := x \<rparr>) = (fold apply_event evs st) \<lparr> cur_savings := x \<rparr>"
  by (induction evs arbitrary: st) (simp_all add: apply_event_savings)

lemma process_events_savings:
  "process_events p (st \<lparr> cur_savings := x \<rparr>) = (process_events p st) \<lparr> cur_savings := x \<rparr>"
  by (simp add: process_events_def fold_apply_event_savings split: option.split)

lemma accum_month_savings:
  "accum_month p w m (st \<lparr> cur_savings := x \<rparr>) = (accum_month p w m st) \<lparr> cur_savings := x \<rparr>"
  by (cases w) (simp add: accum_month_def Let_def)

lemma fold_accum_month_savings:
  "fold (accum_month p w) ms (st \<lparr> cur_savings := x \<rparr>) =
     (fold (accum_month p w) ms st) \<lparr> cur_savings := x \<rparr>"
  by (induction ms arbitrary: st) (simp_all add: accum_month_savings)

lemma accum_year_savings:
  "accum_year p (st \<lparr> cur_savings := x \<rparr>) = (accum_year p st) \<lparr> cur_savings := x \<rparr>"
  by (simp add: accum_year_def Let_def process_events_savings fold_accum_month_savings)

lemma repeat_accum_year_savings:
  "repeat n (accum_year p) (st \<lparr> cur_savings := x \<rparr>) =
     (repeat n (accum_year p) st) \<lparr> cur_savings := x \<rparr>"
  by (induction n arbitrary: st) (simp_all add: accum_year_savings)

lemma retire_month_savings:
  "retire_month p m (st \<lparr> cur_savings := x \<rparr>) = retire_month p m st"
  by (simp add: retire_month_def Let_def split: prod.split)

lemma months_unfold: "[0..<12] = 0 # [1..<12]"
  by (simp add: upt_rec)

lemma retire_year_savings:
  "retire_year p (st \<lparr> cur_savings := x \<rparr>) = retire_year p st"
  by (simp add: retire_year_def months_unfold retire_month_savings)

lemma repeat_retire_year_savings:
  "yearly_map (repeat n (retire_year p) (st \<lparr> cur_savings := x \<rparr>)) =
     yearly_map (repeat n (retire_year p) st)"
  "cur_financial_results (repeat n (retire_year p) (st \<lparr> cur_savings := x \<rparr>)) =
     cur_financial_results (repeat n (retire_year p) st)"
  "cur_event_log (repeat n (retire_year p) (st \<lparr> cur_savings := x \<rparr>)) =
     cur_event_log (repeat n (retire_year p) st)"
  by (cases n; simp add: retire_year_savings)+

lemma retirement_phase_savings:
  "yearly_map (retirement_phase p (st \<lparr> cur_savings := x \<rparr>)) = yearly_map (retirement_phase p st)"
  "cur_financial_results (retirement_phase p (st \<lparr> cur_savings := x \<rparr>)) =
     cur_financial_results (retirement_phase p st)"
  "cur_event_log (retirement_phase p (st \<lparr> cur_savings := x \<rparr>)) =
     cur_event_log (retirement_phase p st)"
proof -
  have swap: "st \<lparr> cur_savings := x, cur_monthly_income := 0 \<rparr> =
              (st \<lparr> cur_monthly_income := 0 \<rparr>) \<lparr> cur_savings := x \<rparr>"
    by simp
  show "yearly_map (retirement_phase p (st \<lparr> cur_savings := x \<rparr>)) = yearly_map (retirement_phase p st)"
    unfolding retirement_phase_def swap by (rule repeat_retire_year_savings)
  show "cur_financial_results (retirement_phase p (st \<lparr> cur_savings := x \<rparr>)) =
     cur_financial_results (retirement_phase p st)"
    unfolding retirement_phase_def swap by (rule repeat_retire_year_savings)
  show "cur_event_log (retirement_phase p (st \<lparr> cur_savings := x \<rparr>)) =
     cur_event_log (retirement_phase p st)"
    unfolding retirement_phase_def swap by (rule repeat_retire_year_savings)
qed

subsection \<open>What a run reads from the payload\<close>

lemma accum_month_cong:
  assumes "monthly_growth_ret p' = monthly_growth_ret p"
    and "monthly_cons_ret p' = monthly_cons_ret p"
    and "monthly_cash_ret p' = monthly_cash_ret p"
  shows "accum_month p' = accum_month p"
  by (intro ext) (simp add: accum_month_def assms)

lemma retire_month_cong:
  assumes "monthly_growth_ret p' = monthly_growth_ret p"
    and "monthly_cons_ret p' = monthly_cons_ret p"
    and "monthly_cash_ret p' = monthly_cash_ret p"
  shows "retire_month p' = retire_month p"
  by (intro ext) (simp add: retire_month_def assms)

lemma accum_year_cong:
  assumes "life_planning p' = life_planning p"
    and "raw_ratios p' = raw_ratios p"
    and "monthly_growth_ret p' = monthly_growth_ret p"
    and "monthly_cons_ret p' = monthly_cons_ret p"
    and "monthly_cash_ret p' = monthly_cash_ret p"
    and "inflation p' = inflation p"
    and "young_growth_rate (salary_config p') = young_growth_rate (salary_config p)"
  shows "accum_year p' = accum_year p"
proof -
  have am: "accum_month p' = accum_month p"
    using assms by (intro accum_month_cong)
  have pe: "process_events p' = process_events p"
    by (rule ext) (simp add: process_events_def assms)
  show ?thesis
    by (rule ext) (simp add: accum_year_def am pe assms)
qed

lemma retire_year_cong:
  assumes "monthly_growth_ret p' = monthly_growth_ret p"
    and "monthly_cons_ret p' = monthly_cons_ret p"
    and "monthly_cash_ret p' = monthly_cash_ret p"
    and "inflation p' = inflation p"
  shows "retire_year p' = retire_year p"
proof -
  have rm: "retire_month p' = retire_month p"
    using assms by (intro retire_month_cong)
  show ?thesis
    by (rule ext) (simp add: retire_year_def rm assms)
qed

lemma run_simulation_cong:
  assumes "initial_state p' = initial_state p"
    and "years p' = years p"
    and "years_in_retirement p' = years_in_retirement p"
    and "accum_year p' = accum_year p"
    and "retire_year p' = retire_year p"
  shows "run_simulation p' = run_simulation p"
  using assms
  by (simp add: run_simulation_def accumulation_phase_def retirement_phase_def)

lemma savings_payload_reads:
  "years (p \<lparr> player_status := (player_status p) \<lparr> savings := s \<rparr> \<rparr>) = years p"
  "years_in_retirement (p \<lparr> player_status := (player_status p) \<lparr> savings := s \<rparr> \<rparr>) =
     years_in_retirement p"
  "accum_year (p \<lparr> player_status := (player_status p) \<lparr> savings := s \<rparr> \<rparr>) = accum_year p"
  "retire_year (p \<lparr> player_status := (player_status p) \<lparr> savings := s \<rparr> \<rparr>) = retire_year p"
  "initial_state (p \<lparr> player_status := (player_status p) \<lparr> savings := s \<rparr> \<rparr>) =
     (initial_state p) \<lparr> cur_savings := or_default s 0 \<rparr>"
proof -
  let ?p = "p \<lparr> player_status := (player_status p) \<lparr> savings := s \<rparr> \<rparr>"
  show "years ?p = years p"
    by (simp add: years_def start_age_def retirement_age_of_def)
  show "years_in_retirement ?p = years_in_retirement p"
    by (simp add: years_in_retirement_def life_expectancy_of_def retirement_age_of_def)
  show "accum_year ?p = accum_year p"
    by (rule accum_year_cong)
       (simp_all add: raw_ratios_def fun_eq_iff monthly_growth_ret_def monthly_cons_ret_def
          monthly_cash_ret_def growth_ret_def cons_ret_def inflation_def)
  show "retire_year ?p = retire_year p"
    by (rule retire_year_cong)
       (simp_all add: monthly_growth_ret_def monthly_cons_ret_def
          monthly_cash_ret_def growth_ret_def cons_ret_def inflation_def)
  show "initial_state ?p = (initial_state p) \<lparr> cur_savings := or_default s 0 \<rparr>"
    by (simp add: initial_state_def start_age_def retirement_age_of_def life_expectancy_of_def
          inflation_def)
qed

lemma run_simulation_savings:
  "run_simulation (p \<lparr> player_status := (player_status p) \<lparr> savings := s \<rparr> \<rparr>) =
     \<lparr> simulation_results = yearly_map (retirement_phase p (accumulation_phase p (initial_state p))),
       financial_results =
         cur_financial_results (retirement_phase p (accumulation_phase p (initial_state p))),
       event_log =
         cur_event_log (retirement_phase p (accumulation_phase p (initial_state p))) @ [LogDone] \<rparr>"
proof -
  let ?p = "p \<lparr> player_status := (player_status p) \<lparr> savings := s \<rparr> \<rparr>"
  have acc: "accumulation_phase ?p (initial_state ?p) =
             (accumulation_phase p (initial_state p)) \<lparr> cur_savings := or_default s 0 \<rparr>"
    by (simp add: accumulation_phase_def savings_payload_reads repeat_accum_year_savings)
  have ret: "retirement_phase ?p = retirement_phase p"
    by (simp add: fun_eq_iff retirement_phase_def savings_payload_reads)
  show ?thesis
    by (simp add: run_simulation_def Let_def acc ret retirement_phase_savings)
qed

text \<open>
  Claim C9. Two payloads that differ only in the \<^verbatim>\<open>savings\<close> of the player status give
  the same \<^verbatim>\<open>simulation_results\<close>, \<^verbatim>\<open>financial_results\<close> and \<^verbatim>\<open>event_log\<close>: the
  three balances start at 0 whatever the savings are, and the local \<^verbatim>\<open>savings\<close> is
  overwritten by the first retirement month before anything reads it.
\<close>

theorem savings_never_used:
  "run_simulation (p \<lparr> player_status := (player_status p) \<lparr> savings := s1 \<rparr> \<rparr>) =
     run_simulation (p \<lparr> player_status := (player_status p) \<lparr> savings := s2 \<rparr> \<rparr>)
   \<and> stock_amt (initial_state p) = 0
   \<and> bond_amt (initial_state p) = 0
   \<and> cash_amt (initial_state p) = 0"
  by (simp add: run_simulation_savings initial_state_def)

section \<open>Zero-valued configuration keys\<close>

lemma or_default_zero: "or_default (Some 0) d = or_default None d"
  by (simp add: or_default_def)

lemmas payload_reads_defs =
  initial_state_def years_def years_in_retirement_def start_age_def retirement_age_of_def
  life_expectancy_of_def inflation_def cons_ret_def growth_ret_def monthly_growth_ret_def
  monthly_cons_ret_def monthly_cash_ret_def raw_ratios_def

lemma run_simulation_reads_cong:
  assumes "initial_state p' = initial_state p"
    and "years p' = years p"
    and "years_in_retirement p' = years_in_retirement p"
    and "life_planning p' = life_planning p"
    and "raw_ratios p' = raw_ratios p"
    and "monthly_growth_ret p' = monthly_growth_ret p"
    and "monthly_cons_ret p' = monthly_cons_ret p"
    and "monthly_cash_ret p' = monthly_cash_ret p"
    and "inflation p' = inflation p"
    and "young_growth_rate (salary_config p') = young_growth_rate (salary_config p)"
  shows "run_simulation p' = run_simulation p"
  using assms by (intro run_simulation_cong accum_year_cong retire_year_cong)

lemma zero_age:
  "run_simulation (p \<lparr> player_status := (player_status p) \<lparr> age := Some 0 \<rparr> \<rparr>) =
   run_simulation (p \<lparr> player_status := (player_status p) \<lparr> age := None \<rparr> \<rparr>)"
  by (rule run_simulation_reads_cong)
     (simp_all add: payload_reads_defs or_default_zero fun_eq_iff Let_def)

lemma zero_retirement_age:
  "run_simulation (p \<lparr> investment_config := (investment_config p) \<lparr> retirement_age := Some 0 \<rparr> \<rparr>) =
   run_simulation (p \<lparr> investment_config := (investment_config p) \<lparr> retirement_age := None \<rparr> \<rparr>)"
  by (rule run_simulation_reads_cong)
     (simp_all add: payload_reads_defs or_default_zero fun_eq_iff Let_def)

lemma zero_life_expectancy:
  "run_simulation (p \<lparr> investment_config := (investment_config p) \<lparr> life_expectancy := Some 0 \<rparr> \<rparr>) =
   run_simulation (p \<lparr> investment_config := (investment_config p) \<lparr> life_expectancy := None \<rparr> \<rparr>)"
  by (rule run_simulation_reads_cong)
     (simp_all add: payload_reads_defs or_default_zero fun_eq_iff Let_def)

lemma zero_inflation_rate:
  "run_simulation (p \<lparr> investment_config := (investment_config p) \<lparr> inflation_rate := Some 0 \<rparr> \<rparr>) =
   run_simulation (p \<lparr> investment_config := (investment_config p) \<lparr> inflation_rate := None \<rparr> \<rparr>)"
  by (rule run_simulation_reads_cong)
     (simp_all add: payload_reads_defs or_default_zero fun_eq_iff Let_def)

lemma zero_conservative_return_rate:
  "run_simulation (p \<lparr> investment_config := (investment_config p) \<lparr> conservative_return_rate := Some 0 \<rparr> \<rparr>) =
   run_simulation (p \<lparr> investment_config := (investment_config p) \<lparr> conservative_return_rate := None \<rparr> \<rparr>)"
  by (rule run_simulation_reads_cong)
     (simp_all add: payload_reads_defs or_default_zero fun_eq_iff Let_def)

lemma zero_growth_return_rate:
  "run_simulation (p \<lparr> investment_config := (investment_config p) \<lparr> growth_return_rate := Some 0 \<rparr> \<rparr>) =
   run_simulation (p \<lparr> investment_config := (investment_config p) \<lparr> growth_return_rate := None \<rparr> \<rparr>)"
  by (rule run_simulation_reads_cong)
     (simp_all add: payload_reads_defs or_default_zero fun_eq_iff Let_def)

lemma accum_year_expense:
  "cur_monthly_expense (accum_year p st) = cur_monthly_expense st * (1 + inflation p)"
  by (simp add: accum_year_def Let_def fold_accum_month_frame process_events_frame)

lemma zero_defaults:
  "start_age (p \<lparr> player_status := (player_status p) \<lparr> age := Some 0 \<rparr> \<rparr>) = 25"
  "retirement_age_of (p \<lparr> investment_config := (investment_config p) \<lparr> retirement_age := Some 0 \<rparr> \<rparr>) = 65"
  "life_expectancy_of (p \<lparr> investment_config := (investment_config p) \<lparr> life_expectancy := Some 0 \<rparr> \<rparr>) = 85"
  "inflation (p \<lparr> investment_config := (investment_config p) \<lparr> inflation_rate := Some 0 \<rparr> \<rparr>) = 3 / 100"
  "cons_ret (p \<lparr> investment_config := (investment_config p) \<lparr> conservative_return_rate := Some 0 \<rparr> \<rparr>) = 3 / 100"
  "growth_ret (p \<lparr> investment_config := (investment_config p) \<lparr> growth_return_rate := Some 0 \<rparr> \<rparr>) = 7 / 100"
  by (simp_all add: payload_reads_defs or_default_def py_int_def)

lemma zero_cash_return:
  "monthly_cash_ret (p \<lparr> investment_config := (investment_config p) \<lparr> cash_return := Some 0 \<rparr> \<rparr>) = 0"
  "monthly_cash_ret (p \<lparr> investment_config := (investment_config p) \<lparr> cash_return := None \<rparr> \<rparr>) = 1 / 600"
  by (simp_all add: monthly_cash_ret_def get_default_def)

lemma accum_month_cash:
  "cash_amt (accum_month p (gr, cr, hr) m st) =
     cash_amt st * (1 + monthly_cash_ret p)
     + ((cur_monthly_income st - monthly_house_payment st) - cur_monthly_expense st) * hr"
  by (simp add: accum_month_def Let_def)

text \<open>
  Claim C10. For \<^verbatim>\<open>age\<close>, \<^verbatim>\<open>retirement_age\<close>, \<^verbatim>\<open>life_expectancy\<close>,
  \<^verbatim>\<open>inflation_rate\<close>, \<^verbatim>\<open>conservative_return_rate\<close> and \<^verbatim>\<open>growth_return_rate\<close> a
  key that is present with the value 0 gives the same run as the key being absent:
  the defaults 25, 65, 85, 0.03, 0.03 and 0.07 are used, so that an inflation rate of 0
  still grows the expense by 3 percent a year. An explicit \<^verbatim>\<open>cash_return\<close> of 0 is
  honoured: the cash balance is then not compounded, whereas an absent key compounds
  it at \<open>0.02 / 12\<close> a month.
\<close>

theorem zero_fields_defaulted:
  "run_simulation (p \<lparr> player_status := (player_status p) \<lparr> age := Some 0 \<rparr> \<rparr>) =
     run_simulation (p \<lparr> player_status := (player_status p) \<lparr> age := None \<rparr> \<rparr>)
   \<and> run_simulation (p \<lparr> investment_config := (investment_config p) \<lparr> retirement_age := Some 0 \<rparr> \<rparr>) =
     run_simulation (p \<lparr> investment_config := (investment_config p) \<lparr> retirement_age := None \<rparr> \<rparr>)
   \<and> run_simulation (p \<lparr> investment_config := (investment_config p) \<lparr> life_expectancy := Some 0 \<rparr> \<rparr>) =
     run_simulation (p \<lparr> investment_config := (investment_config p) \<lparr> life_expectancy := None \<rparr> \<rparr>)
   \<and> run_simulation (p \<lparr> investment_config := (investment_config p) \<lparr> inflation_rate := Some 0 \<rparr> \<rparr>) =
     run_simulation (p \<lparr> investment_config := (investment_config p) \<lparr> inflation_rate := None \<rparr> \<rparr>)
   \<and> run_simulation (p \<lparr> investment_config := (investment_config p) \<lparr> conservative_return_rate := Some 0 \<rparr> \<rparr>) =
     run_simulation (p \<lparr> investment_config := (investment_config p) \<lparr> conservative_return_rate := None \<rparr> \<rparr>)
   \<and> run_simulation (p \<lparr> investment_config := (investment_config p) \<lparr> growth_return_rate := Some 0 \<rparr> \<rparr>) =
     run_simulation (p \<lparr> investment_config := (investment_config p) \<lparr> growth_return_rate := None \<rparr> \<rparr>)
   \<and> start_age (p \<lparr> player_status := (player_status p) \<lparr> age := Some 0 \<rparr> \<rparr>) = 25
   \<and> retirement_age_of (p \<lparr> investment_config := (investment_config p) \<lparr> retirement_age := Some 0 \<rparr> \<rparr>) = 65
   \<and> life_expectancy_of (p \<lparr> investment_config := (investment_config p) \<lparr> life_expectancy := Some 0 \<rparr> \<rparr>) = 85
   \<and> inflation (p \<lparr> investment_config := (investment_config p) \<lparr> inflation_rate := Some 0 \<rparr> \<rparr>) = 0.03
   \<and> cons_ret (p \<lparr> investment_config := (investment_config p) \<lparr> conservative_return_rate := Some 0 \<rparr> \<rparr>) = 0.03
   \<and> growth_ret (p \<lparr> investment_config := (investment_config p) \<lparr> growth_return_rate := Some 0 \<rparr> \<rparr>) = 0.07
   \<and> cur_monthly_expense
        (accum_year (p \<lparr> investment_config := (investment_config p) \<lparr> inflation_rate := Some 0 \<rparr> \<rparr>) st) =
       cur_monthly_expense st * (1 + 0.03)
   \<and> cash_amt (accum_month
          (p \<lparr> investment_config := (investment_config p) \<lparr> cash_return := Some 0 \<rparr> \<rparr>) (gr, cr, hr) m st) =
       cash_amt st + ((cur_monthly_income st - monthly_house_payment st) - cur_monthly_expense st) * hr
   \<and> cash_amt (accum_month
          (p \<lparr> investment_config := (investment_config p) \<lparr> cash_return := None \<rparr> \<rparr>) (gr, cr, hr) m st) =
       cash_amt st * (1 + 0.02 / 12)
       + ((cur_monthly_income st - monthly_house_payment st) - cur_monthly_expense st) * hr"
  by (simp add: zero_age zero_retirement_age zero_life_expectancy zero_inflation_rate
        zero_conservative_return_rate zero_growth_return_rate zero_defaults
        accum_year_expense accum_month_cash zero_cash_return)

section \<open>The first snapshot of a run\<close>

lemma fold_accum_month_extends:
  "\<exists>ys. cur_financial_results (fold (accum_month p w) ms st) = cur_financial_results st @ ys"
proof (induction ms arbitrary: st)
  case Nil
  show ?case by simp
next
  case (Cons m ms)
  obtain snap where "cur_financial_results (accum_month p w m st) = cur_financial_results st @ [snap]"
    using accum_month_results by blast
  moreover obtain ys where "cur_financial_results (fold (accum_month p w) ms (accum_month p w m st)) =
      cur_financial_results (accum_month p w m st) @ ys"
    using Cons by blast
  ultimately show ?case by simp
qed

lemma fold_retire_month_extends:
  "\<exists>ys. cur_financial_results (fold (retire_month p) ms st) = cur_financial_results st @ ys"
proof (induction ms arbitrary: st)
  case Nil
  show ?case by simp
next
  case (Cons m ms)
  obtain snap where "cur_financial_results (retire_month p m st) = cur_financial_results st @ [snap]"
    using retire_month_results by blast
  moreover obtain ys where "cur_financial_results (fold (retire_month p) ms (retire_month p m st)) =
      cur_financial_results (retire_month p m st) @ ys"
    using Cons by blast
  ultimately show ?case by simp
qed

lemma accum_year_results:
  "cur_financial_results (accum_year p st) =
     cur_financial_results
       (fold (accum_month p (normalize_ratios (raw_ratios p (cur_age st)))) [0..<12]
          (process_events p st))"
  by (simp add: accum_year_def Let_def process_events_frame)

lemma retire_year_results:
  "cur_financial_results (retire_year p st) =
     cur_financial_results (fold (retire_month p) [0..<12] st)"
  by (simp add: retire_year_def Let_def)

lemma accum_year_extends:
  "\<exists>ys. cur_financial_results (accum_year p st) = cur_financial_results st @ ys"
  using fold_accum_month_extends
    [of p "normalize_ratios (raw_ratios p (cur_age st))" "[0..<12]" "process_events p st"]
  by (simp add: accum_year_results process_events_frame)

lemma retire_year_extends:
  "\<exists>ys. cur_financial_results (retire_year p st) = cur_financial_results st @ ys"
  using fold_retire_month_extends [of p "[0..<12]" st]
  by (simp add: retire_year_results)

lemma repeat_accum_year_extends:
  "\<exists>ys. cur_financial_results (repeat n (accum_year p) st) = cur_financial_results st @ ys"
proof (induction n arbitrary: st)
  case 0
  show ?case by simp
next
  case (Suc n)
  obtain ys where "cur_financial_results (accum_year p st) = cur_financial_results st @ ys"
    using accum_year_extends by blast
  moreover obtain zs where "cur_financial_results (repeat n (accum_year p) (accum_year p st)) =
      cur_financial_results (accum_year p st) @ zs"
    using Suc by blast
  ultimately show ?case by simp
qed

lemma repeat_retire_year_extends:
  "\<exists>ys. cur_financial_results (repeat n (retire_year p) st) = cur_financial_results st @ ys"
proof (induction n arbitrary: st)
  case 0
  show ?case by simp
next
  case (Suc n)
  obtain ys where "cur_financial_results (retire_year p st) = cur_financial_results st @ ys"
    using retire_year_extends by blast
  moreover obtain zs where "cur_financial_results (repeat n (retire_year p) (retire_year p st)) =
      cur_financial_results (retire_year p st) @ zs"
    using Suc by blast
  ultimately show ?case by simp
qed

lemma first_snapshot:
  assumes "0 < years p"
  shows "hd (financial_results (run_simulation p)) =
         last (cur_financial_results
           (accum_month p (normalize_ratios (raw_ratios p (start_age p))) 0
              (process_events p (initial_state p))))"
proof -
  let ?w = "normalize_ratios (raw_ratios p (start_age p))"
  let ?st1 = "accum_month p ?w 0 (process_events p (initial_state p))"
  obtain n where n: "nat (years p) = Suc n"
    using assms by (cases "nat (years p)") auto
  obtain snap where snap: "cur_financial_results ?st1 = [snap]"
    using accum_month_results [of p ?w 0 "process_events p (initial_state p)"]
    by (auto simp: process_events_frame initial_state_def)
  obtain ys where ys: "cur_financial_results (accum_year p (initial_state p)) = snap # ys"
    using fold_accum_month_extends [of p ?w "[1..<12]" ?st1] snap
    by (auto simp: accum_year_results months_unfold initial_state_def)
  obtain zs where zs: "cur_financial_results (accumulation_phase p (initial_state p)) = snap # zs"
    using repeat_accum_year_extends [of n p "accum_year p (initial_state p)"] ys
    by (auto simp: accumulation_phase_def n)
  obtain us where "cur_financial_results (retirement_phase p (accumulation_phase p (initial_state p)))
      = snap # us"
    using repeat_retire_year_extends [of "nat (years_in_retirement p)" p
        "(accumulation_phase p (initial_state p)) \<lparr> cur_monthly_income := 0 \<rparr>"] zs
    by (auto simp: retirement_phase_def)
  then show ?thesis
    by (simp add: run_simulation_def Let_def snap)
qed

lemma deficit_reads:
  "start_age deficit_payload = 25"
  "retirement_age_of deficit_payload = 65"
  "life_expectancy_of deficit_payload = 85"
  "years deficit_payload = 40"
  "monthly_cash_ret deficit_payload = 1 / 600"
  "normalize_ratios (raw_ratios deficit_payload 25) = (0, 0, 1)"
  "process_events deficit_payload st = st"
  "cur_monthly_income (initial_state deficit_payload) = 30000"
  "cur_monthly_expense (initial_state deficit_payload) = 40000"
  "monthly_house_payment (initial_state deficit_payload) = 0"
  "cash_amt (initial_state deficit_payload) = 0"
  by (simp_all add: deficit_payload_def no_player_status_def no_investment_config_def
        no_salary_config_def payload_reads_defs or_default_def get_default_def py_int_def
        normalize_ratios_def process_events_def Let_def)

section \<open>Negative balances\<close>

text \<open>The retirement month keeps balances that are not negative so, given monthly
  growth factors that are not negative: the growth balance is clamped.\<close>

lemma retire_month_nonneg:
  assumes "0 \<le> stock_amt st" "0 \<le> bond_amt st" "0 \<le> cash_amt st"
    and "0 \<le> 1 + monthly_growth_ret p" "0 \<le> 1 + monthly_cons_ret p" "0 \<le> 1 + monthly_cash_ret p"
  shows "0 \<le> stock_amt (retire_month p m st) \<and> 0 \<le> bond_amt (retire_month p m st)
         \<and> 0 \<le> cash_amt (retire_month p m st)"
  using assms by (auto simp: retire_month_def Let_def)

text \<open>
  Claim C3 states that the three balances are never negative after any simulated month,
  also when the expense exceeds the income. The accumulation month adds the cash flow
  times the weight to each balance with no floor. For a person of 25 with a monthly
  income of 30000 and a monthly expense of 40000 (retirement at 65, life expectancy 85,
  no weights configured, hence all cash) the first monthly snapshot reports a cash
  balance of -10000.
\<close>

theorem accumulation_balance_negative:
  "ms_age (hd (financial_results (run_simulation deficit_payload))) = 25
   \<and> ms_month (hd (financial_results (run_simulation deficit_payload))) = 1
   \<and> ms_cash_investment (hd (financial_results (run_simulation deficit_payload))) = - 10000
   \<and> ms_cash_investment (hd (financial_results (run_simulation deficit_payload))) < 0"
  by (simp add: first_snapshot deficit_reads accum_month_def Let_def)
     (simp add: initial_state_def deficit_reads)

section \<open>The mortgage schedule\<close>



lemma accum_month_debt:
  "current_debt (accum_month p w m st) =
     (if current_debt st > 0 \<and> monthly_house_payment st > 0
      then max 0 (current_debt st - monthly_house_payment st) else current_debt st)"
  by (cases w) (simp add: accum_month_def Let_def)

lemma retire_month_debt:
  "current_debt (retire_month p m st) = max 0 (current_debt st - monthly_house_payment st)"
  by (simp add: retire_month_def Let_def split: prod.split)

lemma accum_month_snapshot:
  "\<exists>snap. cur_financial_results (accum_month p w m st) = cur_financial_results st @ [snap]
     \<and> ms_age snap = cur_age st \<and> ms_month snap = m + 1
     \<and> ms_debt snap = current_debt (accum_month p w m st)
     \<and> ms_monthly_expense snap = cur_monthly_expense st
     \<and> ms_total_expense snap = cur_monthly_expense st + monthly_house_payment st"
  by (cases w) (simp add: accum_month_def Let_def)

lemma retire_month_snapshot:
  "\<exists>snap. cur_financial_results (retire_month p m st) = cur_financial_results st @ [snap]
     \<and> ms_age snap = cur_age st \<and> ms_month snap = m + 1
     \<and> ms_debt snap = current_debt (retire_month p m st)"
  by (simp add: retire_month_def Let_def split: prod.split)





lemma accum_year_fields:
  "cur_age (accum_year p st) = cur_age st + 1"
  "monthly_house_payment (accum_year p st) = monthly_house_payment (process_events p st)"
  "current_debt (accum_year p st) =
     current_debt (fold (accum_month p (normalize_ratios (raw_ratios p (cur_age st)))) [0..<12]
        (process_events p st))"
  by (simp_all add: accum_year_def Let_def fold_accum_month_frame process_events_frame)

lemma retire_year_fields:
  "cur_age (retire_year p st) = cur_age st + 1"
  "current_debt (retire_year p st) = current_debt (fold (retire_month p) [0..<12] st)"
  "monthly_house_payment (retire_year p st) =
     (if current_debt (fold (retire_month p) [0..<12] st) \<le> 0 then 0
      else monthly_house_payment st)"
  by (simp_all add: retire_year_def Let_def fold_retire_month_frame)






subsection \<open>The event log only grows\<close>









subsection \<open>House purchases\<close>






subsection \<open>Which months a run reports\<close>

lemma accum_months_tags:
  "(\<lambda>s. (ms_age s, ms_month s)) ` set (cur_financial_results (fold (accum_month p w) [0..<n] st)) =
     (\<lambda>s. (ms_age s, ms_month s)) ` set (cur_financial_results st) \<union> {cur_age st} \<times> {1..n}"
proof (induction n)
  case 0
  show ?case by simp
next
  case (Suc n)
  let ?st = "fold (accum_month p w) [0..<n] st"
  obtain snap where snap: "cur_financial_results (accum_month p w n ?st) =
        cur_financial_results ?st @ [snap]"
      "ms_age snap = cur_age ?st" "ms_month snap = n + 1"
    using accum_month_snapshot [of p w n ?st] by blast
  have "{cur_age st} \<times> {1..Suc n} = {cur_age st} \<times> {1..n} \<union> {(cur_age st, Suc n)}"
    by auto
  then show ?case
    using Suc snap by (simp add: fold_accum_month_frame Un_commute insert_commute)
qed

lemma retire_months_tags:
  "(\<lambda>s. (ms_age s, ms_month s)) ` set (cur_financial_results (fold (retire_month p) [0..<n] st)) =
     (\<lambda>s. (ms_age s, ms_month s)) ` set (cur_financial_results st) \<union> {cur_age st} \<times> {1..n}"
proof (induction n)
  case 0
  show ?case by simp
next
  case (Suc n)
  let ?st = "fold (retire_month p) [0..<n] st"
  obtain snap where snap: "cur_financial_results (retire_month p n ?st) =
        cur_financial_results ?st @ [snap]"
      "ms_age snap = cur_age ?st" "ms_month snap = n + 1"
    using retire_month_snapshot [of p n ?st] by blast
  have "{cur_age st} \<times> {1..Suc n} = {cur_age st} \<times> {1..n} \<union> {(cur_age st, Suc n)}"
    by auto
  then show ?case
    using Suc snap by (simp add: fold_retire_month_frame Un_commute insert_commute)
qed

lemma accum_year_tags:
  "(\<lambda>s. (ms_age s, ms_month s)) ` set (cur_financial_results (accum_year p st)) =
     (\<lambda>s. (ms_age s, ms_month s)) ` set (cur_financial_results st) \<union> {cur_age st} \<times> {1..12}"
  using accum_months_tags [of p _ 12 "process_events p st"]
  by (simp add: accum_year_results process_events_frame)

lemma retire_year_tags:
  "(\<lambda>s. (ms_age s, ms_month s)) ` set (cur_financial_results (retire_year p st)) =
     (\<lambda>s. (ms_age s, ms_month s)) ` set (cur_financial_results st) \<union> {cur_age st} \<times> {1..12}"
  using retire_months_tags [of p 12 st]
  by (simp add: retire_year_results)

lemma repeat_accum_year_age:
  "cur_age (repeat n (accum_year p) st) = cur_age st + int n"
  by (induction n arbitrary: st) (simp_all add: accum_year_fields)

lemma repeat_retire_year_age:
  "cur_age (repeat n (retire_year p) st) = cur_age st + int n"
  by (induction n arbitrary: st) (simp_all add: retire_year_fields)

lemma years_block:
  "{a::int} \<times> S \<union> {a + 1..<a + 1 + int n} \<times> S = {a..<a + int (Suc n)} \<times> S"
  by auto

lemma repeat_accum_year_tags:
  "(\<lambda>s. (ms_age s, ms_month s)) ` set (cur_financial_results (repeat n (accum_year p) st)) =
     (\<lambda>s. (ms_age s, ms_month s)) ` set (cur_financial_results st)
     \<union> {cur_age st..<cur_age st + int n} \<times> {1..12}"
proof (induction n arbitrary: st)
  case 0
  show ?case by simp
next
  case (Suc n)
  show ?case
    using Suc [of "accum_year p st"] years_block [of "cur_age st" "{1..12::nat}" n]
    by (simp add: accum_year_tags accum_year_fields Un_assoc)
qed

lemma repeat_retire_year_tags:
  "(\<lambda>s. (ms_age s, ms_month s)) ` set (cur_financial_results (repeat n (retire_year p) st)) =
     (\<lambda>s. (ms_age s, ms_month s)) ` set (cur_financial_results st)
     \<union> {cur_age st..<cur_age st + int n} \<times> {1..12}"
proof (induction n arbitrary: st)
  case 0
  show ?case by simp
next
  case (Suc n)
  show ?case
    using Suc [of "retire_year p st"] years_block [of "cur_age st" "{1..12::nat}" n]
    by (simp add: retire_year_tags retire_year_fields Un_assoc)
qed

lemma run_simulation_months:
  "(\<lambda>s. (ms_age s, ms_month s)) ` set (financial_results (run_simulation p)) =
     {start_age p..<start_age p + years p + years_in_retirement p} \<times> {1..12}"
proof -
  have nonneg: "0 \<le> years p" "0 \<le> years_in_retirement p"
    by (simp_all add: years_def years_in_retirement_def)
  have "{start_age p..<start_age p + years p} \<times> {1..12::nat}
        \<union> {start_age p + years p..<start_age p + years p + years_in_retirement p} \<times> {1..12}
        = {start_age p..<start_age p + years p + years_in_retirement p} \<times> {1..12}"
    using nonneg by auto
  then show ?thesis
    using nonneg
    by (simp add: run_simulation_def Let_def retirement_phase_def accumulation_phase_def
          repeat_retire_year_tags repeat_accum_year_tags repeat_accum_year_age initial_state_def)
qed

lemma run_simulation_months_distinct:
  "distinct (map (\<lambda>s. (ms_age s, ms_month s)) (financial_results (run_simulation p)))"
proof -
  have nonneg: "0 \<le> years p" "0 \<le> years_in_retirement p"
    by (simp_all add: years_def years_in_retirement_def)
  have "card (set (map (\<lambda>s. (ms_age s, ms_month s)) (financial_results (run_simulation p)))) =
        card ({start_age p..<start_age p + years p + years_in_retirement p} \<times> {1..12::nat})"
    by (simp add: run_simulation_months)
  also have "\<dots> = 12 * (nat (years p) + nat (years_in_retirement p))"
    using nonneg by (simp add: card_cartesian_product nat_add_distrib)
  also have "\<dots> = length (map (\<lambda>s. (ms_age s, ms_month s)) (financial_results (run_simulation p)))"
    by (simp add: run_simulation_length)
  finally show ?thesis
    by (rule card_distinct)
qed

subsection \<open>The house payment and the debt are not negative\<close>

lemma calculate_monthly_payment_nonneg:
  "0 \<le> calculate_monthly_payment P rate T"
  by (simp add: calculate_monthly_payment_def)

lemma apply_event_payment_nonneg:
  "0 \<le> monthly_house_payment st \<Longrightarrow> 0 \<le> monthly_house_payment (apply_event ev st)"
  by (simp add: apply_event_def Let_def calculate_monthly_payment_nonneg)

lemma process_events_payment_nonneg:
  assumes "0 \<le> monthly_house_payment st"
  shows "0 \<le> monthly_house_payment (process_events p st)"
proof -
  have "0 \<le> monthly_house_payment (fold apply_event evs st)" for evs
    using assms by (induction evs arbitrary: st) (simp_all add: apply_event_payment_nonneg)
  then show ?thesis
    using assms by (simp add: process_events_def split: option.split)
qed

lemma accum_year_payment_nonneg:
  "0 \<le> monthly_house_payment st \<Longrightarrow> 0 \<le> monthly_house_payment (accum_year p st)"
  by (simp add: accum_year_fields process_events_payment_nonneg)

lemma retire_year_payment_nonneg:
  "0 \<le> monthly_house_payment st \<Longrightarrow> 0 \<le> monthly_house_payment (retire_year p st)"
  by (simp add: retire_year_fields)

lemma accum_month_debt_nonneg:
  "0 \<le> current_debt st \<Longrightarrow> 0 \<le> current_debt (accum_month p w m st)"
  by (simp add: accum_month_debt)

lemma retire_month_debt_nonneg:
  "0 \<le> current_debt (retire_month p m st)"
  by (simp add: retire_month_debt)

subsection \<open>The purchase at the age of 30\<close>







section \<open>The first ages of financial independence\<close>

lemma scan_step_ages:
  assumes "scan_step sr ps ic a s = Inr s'"
  shows "sc_growing s' =
           (if sc_growing s = None \<and> hits_growing sr ps ic a then Some a else sc_growing s)"
    and "sc_traditional s' =
           (if sc_traditional s = None \<and> hits_traditional sr ps ic a then Some a
            else sc_traditional s)"
  using assms
  by (auto simp: scan_step_def Let_def hits_growing_def hits_traditional_def
        split: if_splits sum.splits prod.splits)

lemma scan_ages:
  assumes "scan sr ps ic ks s = Inr s'"
  shows "sc_growing s' =
           (case sc_growing s of Some x \<Rightarrow> Some x
            | None \<Rightarrow> List.find (hits_growing sr ps ic) ks)"
    and "sc_traditional s' =
           (case sc_traditional s of Some x \<Rightarrow> Some x
            | None \<Rightarrow> List.find (hits_traditional sr ps ic) ks)"
  using assms
proof (induction ks arbitrary: s)
  case Nil
  {
    case 1
    then show ?case by (simp split: option.split)
  next
    case 2
    then show ?case by (simp split: option.split)
  }
next
  case (Cons k ks)
  {
    case 1
    then obtain s1 where s1: "scan_step sr ps ic k s = Inr s1" and rest: "scan sr ps ic ks s1 = Inr s'"
      by (auto split: sum.splits)
    show ?case
      using Cons.IH(1) [OF rest] scan_step_ages(1) [OF s1]
      by (auto split: option.splits if_splits)
  next
    case 2
    then obtain s1 where s1: "scan_step sr ps ic k s = Inr s1" and rest: "scan sr ps ic ks s1 = Inr s'"
      by (auto split: sum.splits)
    show ?case
      using Cons.IH(2) [OF rest] scan_step_ages(2) [OF s1]
      by (auto split: option.splits if_splits)
  }
qed

lemma find_sorted_least:
  assumes "sorted ks" and "List.find P ks = Some (a::int)"
  shows "P a \<and> a \<in> set ks \<and> (\<forall>b \<in> set ks. P b \<longrightarrow> a \<le> b)"
  using assms
proof (induction ks)
  case Nil
  then show ?case by simp
next
  case (Cons k ks)
  show ?case
  proof (cases "P k")
    case True
    then show ?thesis using Cons.prems by auto
  next
    case False
    then have "List.find P ks = Some a" and "sorted ks"
      using Cons.prems by simp_all
    then show ?thesis
      using Cons.IH False by auto
  qed
qed

lemma py_pow_total: "x \<noteq> 0 \<Longrightarrow> \<exists>y. py_pow x n = Inr y"
  by (simp add: py_pow_def)

lemma present_value_total:
  assumes "1 + r \<noteq> 0"
  shows "\<exists>v. calculate_growing_annuity_present_value E0 n r g = Inr v"
  using assms
  by (auto simp: calculate_growing_annuity_present_value_def py_div_def py_pow_def Let_def)

lemma age_targets_total:
  assumes "1 + fire_inflation ic \<noteq> 0" and "1 + fire_conservative ic \<noteq> 0"
  shows "\<exists>t. age_targets ps ic a = Inr t"
proof -
  obtain pw where pw: "py_pow (1 + fire_inflation ic) (a - fire_current_age ps) = Inr pw"
    using py_pow_total [OF assms(1)] by blast
  obtain v where "calculate_growing_annuity_present_value
      (fire_current_monthly_expense ps * 12 * pw) (fire_life_expectancy ic - a)
      (fire_conservative ic) (fire_inflation ic) = Inr v"
    using present_value_total [OF assms(2)] by blast
  then show ?thesis
    by (simp add: age_targets_def Let_def pw)
qed

lemma scan_step_total:
  assumes "1 + fire_inflation ic \<noteq> 0" and "1 + fire_conservative ic \<noteq> 0"
  shows "\<exists>s'. scan_step sr ps ic a s = Inr s'"
proof -
  obtain t where "age_targets ps ic a = Inr t"
    using age_targets_total [OF assms] by blast
  then show ?thesis
    by (cases t) (simp add: scan_step_def Let_def)
qed

lemma scan_total:
  assumes "1 + fire_inflation ic \<noteq> 0" and "1 + fire_conservative ic \<noteq> 0"
  shows "\<exists>s'. scan sr ps ic ks s = Inr s'"
proof (induction ks arbitrary: s)
  case Nil
  show ?case by simp
next
  case (Cons k ks)
  obtain s1 where "scan_step sr ps ic k s = Inr s1"
    using scan_step_total [OF assms] by blast
  then show ?case
    using Cons [of s1] by simp
qed

lemma headline_targets_total:
  assumes "1 + fire_inflation ic \<noteq> 0" and "1 + fire_conservative ic \<noteq> 0"
  shows "\<exists>t. headline_targets sr ps ic = Inr t"
proof (cases "map_of sr (fire_retirement_age ic)")
  case (Some d)
  obtain v where "calculate_growing_annuity_present_value (ys_monthly_expense d * 12)
      (max 0 (fire_life_expectancy ic - fire_retirement_age ic))
      (fire_conservative ic) (fire_inflation ic) = Inr v"
    using present_value_total [OF assms(2)] by blast
  then show ?thesis
    by (simp add: headline_targets_def Some Let_def)
next
  case None
  let ?n = "max 0 (fire_retirement_age ic - fire_current_age ps)"
  obtain pw where pw: "py_pow (1 + fire_inflation ic) ?n = Inr pw"
    using py_pow_total [OF assms(1)] by blast
  obtain v where v: "calculate_growing_annuity_present_value
      (fire_current_monthly_expense ps * 12 * pw)
      (max 0 (fire_life_expectancy ic - fire_retirement_age ic))
      (fire_conservative ic) (fire_inflation ic) = Inr v"
    using present_value_total [OF assms(2)] by blast
  show ?thesis
    by (simp add: headline_targets_def None calculate_retirement_target_growing_annuity_def
          calculate_retirement_target_traditional_25x_def Let_def pw v)
qed

lemma check_fire_achievement_total:
  assumes "1 + fire_inflation ic \<noteq> 0" and "1 + fire_conservative ic \<noteq> 0"
  shows "\<exists>res. check_fire_achievement sr ps ic = Inr res"
proof -
  obtain t where t: "headline_targets sr ps ic = Inr t"
    using headline_targets_total [OF assms] by blast
  obtain s where s: "scan sr ps ic (sort (map fst sr))
      \<lparr> sc_growing = None, sc_traditional = None, sc_achievements = [] \<rparr> = Inr s"
    using scan_total [OF assms] by blast
  show ?thesis
    by (cases t) (simp add: check_fire_achievement_def t s)
qed

lemma check_fire_achievement_ages:
  assumes "check_fire_achievement sr ps ic = Inr res"
  shows "fire_age_growing res = List.find (hits_growing sr ps ic) (sort (map fst sr))"
    and "fire_age_traditional res = List.find (hits_traditional sr ps ic) (sort (map fst sr))"
proof -
  from assms obtain s where s: "scan sr ps ic (sort (map fst sr))
      \<lparr> sc_growing = None, sc_traditional = None, sc_achievements = [] \<rparr> = Inr s"
    and res: "fire_age_growing res = sc_growing s" "fire_age_traditional res = sc_traditional s"
    by (auto simp: check_fire_achievement_def split: sum.splits prod.splits)
  show "fire_age_growing res = List.find (hits_growing sr ps ic) (sort (map fst sr))"
    using scan_ages(1) [OF s] res by simp
  show "fire_age_traditional res = List.find (hits_traditional sr ps ic) (sort (map fst sr))"
    using scan_ages(2) [OF s] res by simp
qed

lemma meets_hits:
  "meets_growing sr ps ic a \<longleftrightarrow> a \<in> set (sort (map fst sr)) \<and> hits_growing sr ps ic a"
  "meets_traditional sr ps ic a \<longleftrightarrow> a \<in> set (sort (map fst sr)) \<and> hits_traditional sr ps ic a"
  by (auto simp: meets_growing_def meets_traditional_def)

lemma find_least_meeting:
  assumes "List.find P (sort ks) = r"
  shows "(r = None \<longleftrightarrow> (\<forall>a::int. \<not> (a \<in> set (sort ks) \<and> P a)))
       \<and> (\<forall>a. r = Some a \<longrightarrow> (a \<in> set (sort ks) \<and> P a)
              \<and> (\<forall>b. b \<in> set (sort ks) \<and> P b \<longrightarrow> a \<le> b))"
proof (cases r)
  case None
  then show ?thesis
    using assms by (auto simp: find_None_iff)
next
  case (Some a)
  then have "P a \<and> a \<in> set (sort ks) \<and> (\<forall>b \<in> set (sort ks). P b \<longrightarrow> a \<le> b)"
    using assms find_sorted_least [of "sort ks" P a] by simp
  then show ?thesis
    using Some by auto
qed

lemma age_targets_formula:
  assumes "fire_current_age ps \<le> a"
  shows "age_targets ps ic a =
     (case calculate_growing_annuity_present_value
             (fire_current_monthly_expense ps * 12
                * (1 + fire_inflation ic) ^ nat (a - fire_current_age ps))
             (fire_life_expectancy ic - a) (fire_conservative ic) (fire_inflation ic) of
        Inl e \<Rightarrow> Inl e
      | Inr tg \<Rightarrow>
          Inr (tg, fire_current_monthly_expense ps * 12
                  * (1 + fire_inflation ic) ^ nat (a - fire_current_age ps) * 25))"
  using assms by (simp add: age_targets_def py_pow_def Let_def)

text \<open>
  Claim C5. \<^verbatim>\<open>check_fire_achievement\<close> scans the ages of the snapshot map in ascending
  order and skips an age with no years left to the life expectancy. For a scanned age
  it projects the annual expense by compounding the inflation from the current age and
  takes two targets from it: the growing-annuity present value over the remaining
  years, and 25 times the projected annual expense. Independently for each target it
  reports the smallest age whose net worth reaches that age's target, and no age when
  none does. The function returns whenever neither \<open>1 + inflation\<close> nor
  \<open>1 + conservative return\<close> is zero; otherwise a division may raise.
\<close>

theorem check_fire_achievement_spec:
  "(check_fire_achievement sr ps ic = Inr res \<longrightarrow>
      (fire_age_growing res = None \<longleftrightarrow> (\<forall>a. \<not> meets_growing sr ps ic a))
    \<and> (\<forall>a. fire_age_growing res = Some a \<longrightarrow>
          meets_growing sr ps ic a \<and> (\<forall>b. meets_growing sr ps ic b \<longrightarrow> a \<le> b))
    \<and> (fire_age_traditional res = None \<longleftrightarrow> (\<forall>a. \<not> meets_traditional sr ps ic a))
    \<and> (\<forall>a. fire_age_traditional res = Some a \<longrightarrow>
          meets_traditional sr ps ic a \<and> (\<forall>b. meets_traditional sr ps ic b \<longrightarrow> a \<le> b)))
   \<and> (1 + fire_inflation ic \<noteq> 0 \<and> 1 + fire_conservative ic \<noteq> 0 \<longrightarrow>
        (\<exists>r. check_fire_achievement sr ps ic = Inr r))
   \<and> (fire_current_age ps \<le> a \<longrightarrow>
        age_targets ps ic a =
          (case calculate_growing_annuity_present_value
                  (fire_current_monthly_expense ps * 12
                     * (1 + fire_inflation ic) ^ nat (a - fire_current_age ps))
                  (fire_life_expectancy ic - a) (fire_conservative ic) (fire_inflation ic) of
             Inl e \<Rightarrow> Inl e
           | Inr tg \<Rightarrow>
               Inr (tg, fire_current_monthly_expense ps * 12
                       * (1 + fire_inflation ic) ^ nat (a - fire_current_age ps) * 25)))"
proof (intro conjI impI)
  assume ok: "check_fire_achievement sr ps ic = Inr res"
  note g = find_least_meeting [OF check_fire_achievement_ages(1) [OF ok, symmetric]]
  note t = find_least_meeting [OF check_fire_achievement_ages(2) [OF ok, symmetric]]
  show "fire_age_growing res = None \<longleftrightarrow> (\<forall>a. \<not> meets_growing sr ps ic a)"
    using g by (simp add: meets_hits)
  show "\<forall>a. fire_age_growing res = Some a \<longrightarrow>
          meets_growing sr ps ic a \<and> (\<forall>b. meets_growing sr ps ic b \<longrightarrow> a \<le> b)"
    using g by (simp add: meets_hits)
  show "fire_age_traditional res = None \<longleftrightarrow> (\<forall>a. \<not> meets_traditional sr ps ic a)"
    using t by (simp add: meets_hits)
  show "\<forall>a. fire_age_traditional res = Some a \<longrightarrow>
          meets_traditional sr ps ic a \<and> (\<forall>b. meets_traditional sr ps ic b \<longrightarrow> a \<le> b)"
    using t by (simp add: meets_hits)
next
  assume "1 + fire_inflation ic \<noteq> 0 \<and> 1 + fire_conservative ic \<noteq> 0"
  then show "\<exists>r. check_fire_achievement sr ps ic = Inr r"
    using check_fire_achievement_total by blast
next
  assume "fire_current_age ps \<le> a"
  then show "age_targets ps ic a =
          (case calculate_growing_annuity_present_value
                  (fire_current_monthly_expense ps * 12
                     * (1 + fire_inflation ic) ^ nat (a - fire_current_age ps))
                  (fire_life_expectancy ic - a) (fire_conservative ic) (fire_inflation ic) of
             Inl e \<Rightarrow> Inl e
           | Inr tg \<Rightarrow>
               Inr (tg, fire_current_monthly_expense ps * 12
                       * (1 + fire_inflation ic) ^ nat (a - fire_current_age ps) * 25))"
    by (rule age_targets_formula)
qed

lemma spender_reads:
  "fire_current_age spender = 30"
  "fire_current_monthly_expense spender = 1000"
  "fire_life_expectancy no_investment_config = 85"
  "fire_retirement_age no_investment_config = 65"
  "fire_inflation no_investment_config = 3 / 100"
  "fire_conservative no_investment_config = 3 / 100"
  by (simp_all add: spender_def no_player_status_def no_investment_config_def
        fire_current_age_def fire_current_monthly_expense_def fire_life_expectancy_def
        fire_retirement_age_def fire_inflation_def fire_conservative_def
        or_default_def py_int_def)

lemma three_years_reads:
  "sort (map fst three_years) = [30, 31, 32]"
  "net_worth_at three_years 30 = 100"
  "net_worth_at three_years 31 = 400000"
  "net_worth_at three_years 32 = 700000"
  "map_of three_years 65 = None"
  by (simp_all add: three_years_def net_worth_at_def year_with_net_worth_def)

lemma three_years_targets:
  "age_targets spender no_investment_config 30 = Inr (12000 * 55 / (103 / 100), 300000)"
  "age_targets spender no_investment_config 31 = Inr (648000, 309000)"
  "age_targets spender no_investment_config 32 = Inr (12360 * 53, 318270)"
  by (simp_all add: age_targets_def spender_reads py_pow_def Let_def
        calculate_growing_annuity_present_value_def py_div_def power2_eq_square)

lemma three_years_hits:
  "\<not> hits_growing three_years spender no_investment_config 30"
  "\<not> hits_growing three_years spender no_investment_config 31"
  "hits_growing three_years spender no_investment_config 32"
  "\<not> hits_traditional three_years spender no_investment_config 30"
  "hits_traditional three_years spender no_investment_config 31"
  by (simp_all add: hits_growing_def hits_traditional_def three_years_targets three_years_reads
        spender_reads)

theorem check_fire_achievement_spec_witness:
  "\<exists>res. check_fire_achievement three_years spender no_investment_config = Inr res
     \<and> fire_age_growing res = Some 32
     \<and> fire_age_traditional res = Some 31
     \<and> meets_growing three_years spender no_investment_config 32
     \<and> meets_traditional three_years spender no_investment_config 31
     \<and> \<not> meets_growing three_years spender no_investment_config 31"
proof -
  note spec = check_fire_achievement_spec [of three_years spender no_investment_config _ 30]
  have "1 + fire_inflation no_investment_config \<noteq> 0
      \<and> 1 + fire_conservative no_investment_config \<noteq> 0"
    by (simp add: spender_reads)
  then obtain res where res: "check_fire_achievement three_years spender no_investment_config = Inr res"
    using spec by blast
  have g: "fire_age_growing res = Some 32"
    using check_fire_achievement_ages(1) [OF res]
    by (simp add: three_years_reads three_years_hits)
  have t: "fire_age_traditional res = Some 31"
    using check_fire_achievement_ages(2) [OF res]
    by (simp add: three_years_reads three_years_hits)
  have mg: "meets_growing three_years spender no_investment_config 32
      \<and> (\<forall>b. meets_growing three_years spender no_investment_config b \<longrightarrow> 32 \<le> b)"
    using check_fire_achievement_spec [of three_years spender no_investment_config res 30] res g
    by blast
  have mt: "meets_traditional three_years spender no_investment_config 31"
    using check_fire_achievement_spec [of three_years spender no_investment_config res 30] res t
    by blast
  have "\<not> meets_growing three_years spender no_investment_config 31"
    using mg by fastforce
  then show ?thesis
    using res g t mg mt by blast
qed

section \<open>One month of accumulation\<close>

lemma year_weights:
  "normalize_ratios (raw_ratios p a) =
     (let ic = investment_config p;
          g = (if a \<le> 40 then or_default (young_growth_ratio ic) 0
               else if a \<le> 55 then or_default (middle_growth_ratio ic) 0
               else or_default (old_growth_ratio ic) 0);
          c = (if a \<le> 40 then or_default (young_conservative_ratio ic) 0
               else if a \<le> 55 then or_default (middle_conservative_ratio ic) 0
               else or_default (old_conservative_ratio ic) 0);
          h = (if a \<le> 40 then or_default (young_cash_reserve_ratio ic) 0
               else if a \<le> 55 then or_default (middle_cash_reserve_ratio ic) 0
               else or_default (old_cash_reserve_ratio ic) 0);
          total = g + c + h
      in (if total \<le> 0 then 0 else g / total,
          if total \<le> 0 then 0 else c / total,
          if total \<le> 0 then 1 else h / total))"
  by (simp add: raw_ratios_def normalize_ratios_def Let_def)

lemma accum_year_months:
  "stock_amt (accum_year p st) =
     stock_amt (fold (accum_month p (normalize_ratios (raw_ratios p (cur_age st)))) [0..<12]
        (process_events p st))"
  "bond_amt (accum_year p st) =
     bond_amt (fold (accum_month p (normalize_ratios (raw_ratios p (cur_age st)))) [0..<12]
        (process_events p st))"
  "cash_amt (accum_year p st) =
     cash_amt (fold (accum_month p (normalize_ratios (raw_ratios p (cur_age st)))) [0..<12]
        (process_events p st))"
  by (simp_all add: accum_year_def Let_def process_events_frame)

text \<open>
  Claim C1, as the code has it. In every month of the accumulation phase the engine
  computes the net cash flow \<open>(income - house payment) - expense\<close> and sets each of the
  three balances to \<open>balance * (1 + annual_rate / 12) + cashflow * weight\<close>. The
  weights are those of the age band of the simulated year (up to 40, up to 55, older),
  each divided by their sum, or all cash when the sum is not positive; they add up to
  1, and the twelve months of \<open>accum_year\<close> run with exactly these weights. The
  outstanding debt is reduced by the house payment with a floor of zero when debt and
  payment are both positive and is left as it is otherwise; for a debt and a payment
  that are not negative that is the reduction floored at zero. The month appends a
  snapshot that reports the new debt and balances and whose net worth is the sum of the
  three new balances.
\<close>

theorem accum_month_spec:
  "let ic = investment_config p;
       a = cur_age st;
       g = (if a \<le> 40 then or_default (young_growth_ratio ic) 0
            else if a \<le> 55 then or_default (middle_growth_ratio ic) 0
            else or_default (old_growth_ratio ic) 0);
       c = (if a \<le> 40 then or_default (young_conservative_ratio ic) 0
            else if a \<le> 55 then or_default (middle_conservative_ratio ic) 0
            else or_default (old_conservative_ratio ic) 0);
       h = (if a \<le> 40 then or_default (young_cash_reserve_ratio ic) 0
            else if a \<le> 55 then or_default (middle_cash_reserve_ratio ic) 0
            else or_default (old_cash_reserve_ratio ic) 0);
       total = g + c + h;
       gr = (if total \<le> 0 then 0 else g / total);
       cr = (if total \<le> 0 then 0 else c / total);
       hr = (if total \<le> 0 then 1 else h / total);
       months = fold (accum_month p (gr, cr, hr)) [0..<12] (process_events p st);
       cashflow = (cur_monthly_income s - monthly_house_payment s) - cur_monthly_expense s;
       s' = accum_month p (gr, cr, hr) m s;
       snap = last (cur_financial_results s')
   in gr + cr + hr = 1
    \<and> stock_amt (accum_year p st) = stock_amt months
    \<and> bond_amt (accum_year p st) = bond_amt months
    \<and> cash_amt (accum_year p st) = cash_amt months
    \<and> current_debt (accum_year p st) = current_debt months
    \<and> cur_financial_results (accum_year p st) = cur_financial_results months
    \<and> stock_amt s' =
          stock_amt s * (1 + or_default (growth_return_rate ic) 0.07 / 12) + cashflow * gr
    \<and> bond_amt s' =
          bond_amt s * (1 + or_default (conservative_return_rate ic) 0.03 / 12) + cashflow * cr
    \<and> cash_amt s' = cash_amt s * (1 + get_default (cash_return ic) 0.02 / 12) + cashflow * hr
    \<and> current_debt s' =
          (if 0 < current_debt s \<and> 0 < monthly_house_payment s
           then max 0 (current_debt s - monthly_house_payment s) else current_debt s)
    \<and> (0 \<le> current_debt s \<and> 0 \<le> monthly_house_payment s \<longrightarrow>
          current_debt s' = max 0 (current_debt s - monthly_house_payment s))
    \<and> cur_financial_results s' = cur_financial_results s @ [snap]
    \<and> ms_age snap = cur_age s \<and> ms_month snap = m + 1
    \<and> ms_debt snap = current_debt s'
    \<and> ms_stock_investment snap = stock_amt s'
    \<and> ms_bond_investment snap = bond_amt s'
    \<and> ms_cash_investment snap = cash_amt s'
    \<and> ms_net_worth snap = stock_amt s' + bond_amt s' + cash_amt s'"
proof -
  let ?ic = "investment_config p"
  let ?a = "cur_age st"
  let ?g = "if ?a \<le> 40 then or_default (young_growth_ratio ?ic) 0
            else if ?a \<le> 55 then or_default (middle_growth_ratio ?ic) 0
            else or_default (old_growth_ratio ?ic) 0"
  let ?c = "if ?a \<le> 40 then or_default (young_conservative_ratio ?ic) 0
            else if ?a \<le> 55 then or_default (middle_conservative_ratio ?ic) 0
            else or_default (old_conservative_ratio ?ic) 0"
  let ?h = "if ?a \<le> 40 then or_default (young_cash_reserve_ratio ?ic) 0
            else if ?a \<le> 55 then or_default (middle_cash_reserve_ratio ?ic) 0
            else or_default (old_cash_reserve_ratio ?ic) 0"
  let ?total = "?g + ?c + ?h"
  let ?gr = "if ?total \<le> 0 then 0 else ?g / ?total"
  let ?cr = "if ?total \<le> 0 then 0 else ?c / ?total"
  let ?hr = "if ?total \<le> 0 then 1 else ?h / ?total"
  let ?months = "fold (accum_month p (?gr, ?cr, ?hr)) [0..<12] (process_events p st)"
  let ?s' = "accum_month p (?gr, ?cr, ?hr) m s"
  have w: "normalize_ratios (raw_ratios p ?a) = (?gr, ?cr, ?hr)"
    by (simp only: year_weights Let_def)
  have sum: "?gr + ?cr + ?hr = 1"
  proof (cases "?total \<le> 0")
    case True
    then show ?thesis by simp
  next
    case False
    then have "?gr + ?cr + ?hr = ?total / ?total"
      by (simp only: if_False add_divide_distrib)
    then show ?thesis using False by simp
  qed
  have year: "stock_amt (accum_year p st) = stock_amt ?months"
      "bond_amt (accum_year p st) = bond_amt ?months"
      "cash_amt (accum_year p st) = cash_amt ?months"
      "current_debt (accum_year p st) = current_debt ?months"
      "cur_financial_results (accum_year p st) = cur_financial_results ?months"
    by (simp_all only: accum_year_months accum_year_fields accum_year_results w)
  have month: "stock_amt ?s' =
          stock_amt s * (1 + or_default (growth_return_rate ?ic) 0.07 / 12)
          + ((cur_monthly_income s - monthly_house_payment s) - cur_monthly_expense s) * ?gr"
      "bond_amt ?s' =
          bond_amt s * (1 + or_default (conservative_return_rate ?ic) 0.03 / 12)
          + ((cur_monthly_income s - monthly_house_payment s) - cur_monthly_expense s) * ?cr"
      "cash_amt ?s' = cash_amt s * (1 + get_default (cash_return ?ic) 0.02 / 12)
          + ((cur_monthly_income s - monthly_house_payment s) - cur_monthly_expense s) * ?hr"
    by (simp_all add: accum_month_def Let_def monthly_growth_ret_def monthly_cons_ret_def
          monthly_cash_ret_def growth_ret_def cons_ret_def)
  have debt: "current_debt ?s' =
          (if 0 < current_debt s \<and> 0 < monthly_house_payment s
           then max 0 (current_debt s - monthly_house_payment s) else current_debt s)"
    by (simp add: accum_month_debt)
  have floor: "0 \<le> current_debt s \<and> 0 \<le> monthly_house_payment s \<longrightarrow>
          current_debt ?s' = max 0 (current_debt s - monthly_house_payment s)"
    by (auto simp: debt)
  have snap: "cur_financial_results ?s' = cur_financial_results s @ [last (cur_financial_results ?s')]"
      "ms_age (last (cur_financial_results ?s')) = cur_age s"
      "ms_month (last (cur_financial_results ?s')) = m + 1"
      "ms_debt (last (cur_financial_results ?s')) = current_debt ?s'"
      "ms_stock_investment (last (cur_financial_results ?s')) = stock_amt ?s'"
      "ms_bond_investment (last (cur_financial_results ?s')) = bond_amt ?s'"
      "ms_cash_investment (last (cur_financial_results ?s')) = cash_amt ?s'"
      "ms_net_worth (last (cur_financial_results ?s')) = stock_amt ?s' + bond_amt ?s' + cash_amt ?s'"
    by (simp_all add: accum_month_def Let_def)
  show ?thesis
    unfolding Let_def
    by (intro conjI sum year month debt floor snap)
qed

lemma unnormalized_reads:
  "young_growth_ratio (investment_config unnormalized_payload) = Some 6"
  "young_conservative_ratio (investment_config unnormalized_payload) = Some 3"
  "young_cash_reserve_ratio (investment_config unnormalized_payload) = Some 1"
  "growth_return_rate (investment_config unnormalized_payload) = Some (7 / 100)"
  "conservative_return_rate (investment_config unnormalized_payload) = Some (3 / 100)"
  "cash_return (investment_config unnormalized_payload) = Some (1 / 50)"
  "years unnormalized_payload = 35"
  "start_age unnormalized_payload = 30"
  "process_events unnormalized_payload st = st"
  "cur_age (initial_state unnormalized_payload) = 30"
  "cur_monthly_income (initial_state unnormalized_payload) = 80000"
  "cur_monthly_expense (initial_state unnormalized_payload) = 40000"
  "monthly_house_payment (initial_state unnormalized_payload) = 0"
  "stock_amt (initial_state unnormalized_payload) = 0"
  "bond_amt (initial_state unnormalized_payload) = 0"
  "cash_amt (initial_state unnormalized_payload) = 0"
  "cur_financial_results (initial_state unnormalized_payload) = []"
  by (simp_all add: unnormalized_payload_def bond_stock_cash_payload_def initial_state_def
        years_def start_age_def retirement_age_of_def process_events_def or_default_def
        py_int_def)

lemma unnormalized_weights:
  "normalize_ratios (raw_ratios unnormalized_payload 30) = (3 / 5, 3 / 10, 1 / 10)"
  by (simp add: year_weights Let_def unnormalized_reads or_default_def)

theorem accum_month_spec_witness:
  "0 \<le> current_debt unnormalized_mortgaged_state
   \<and> 0 \<le> monthly_house_payment unnormalized_mortgaged_state
   \<and> stock_amt (accum_month unnormalized_payload (3 / 5, 3 / 10, 1 / 10) 0
        unnormalized_mortgaged_state) = 6000
   \<and> bond_amt (accum_month unnormalized_payload (3 / 5, 3 / 10, 1 / 10) 0
        unnormalized_mortgaged_state) = 3000
   \<and> cash_amt (accum_month unnormalized_payload (3 / 5, 3 / 10, 1 / 10) 0
        unnormalized_mortgaged_state) = 1000
   \<and> current_debt (accum_month unnormalized_payload (3 / 5, 3 / 10, 1 / 10) 0
        unnormalized_mortgaged_state) = 70000
   \<and> stock_amt (accum_year unnormalized_payload (initial_state unnormalized_payload)) =
       stock_amt (fold (accum_month unnormalized_payload (3 / 5, 3 / 10, 1 / 10)) [0..<12]
         (initial_state unnormalized_payload))
   \<and> ms_stock_investment (hd (financial_results (run_simulation unnormalized_payload))) = 24000
   \<and> ms_net_worth (hd (financial_results (run_simulation unnormalized_payload))) = 40000"
proof -
  have step: "stock_amt (accum_month unnormalized_payload (3 / 5, 3 / 10, 1 / 10) 0
        unnormalized_mortgaged_state) = 6000
   \<and> bond_amt (accum_month unnormalized_payload (3 / 5, 3 / 10, 1 / 10) 0
        unnormalized_mortgaged_state) = 3000
   \<and> cash_amt (accum_month unnormalized_payload (3 / 5, 3 / 10, 1 / 10) 0
        unnormalized_mortgaged_state) = 1000
   \<and> current_debt (accum_month unnormalized_payload (3 / 5, 3 / 10, 1 / 10) 0
        unnormalized_mortgaged_state) = 70000
   \<and> stock_amt (accum_year unnormalized_payload (initial_state unnormalized_payload)) =
       stock_amt (fold (accum_month unnormalized_payload (3 / 5, 3 / 10, 1 / 10)) [0..<12]
         (initial_state unnormalized_payload))"
    using accum_month_spec [of unnormalized_payload "initial_state unnormalized_payload"
        unnormalized_mortgaged_state 0]
    by (simp add: Let_def unnormalized_reads unnormalized_mortgaged_state_def or_default_def
          get_default_def)
  have first: "ms_stock_investment (last (cur_financial_results
          (accum_month unnormalized_payload (3 / 5, 3 / 10, 1 / 10) 0
             (initial_state unnormalized_payload)))) = 24000
      \<and> ms_net_worth (last (cur_financial_results
          (accum_month unnormalized_payload (3 / 5, 3 / 10, 1 / 10) 0
             (initial_state unnormalized_payload)))) = 40000"
    using accum_month_spec [of unnormalized_payload "initial_state unnormalized_payload"
        "initial_state unnormalized_payload" 0]
    by (simp add: Let_def unnormalized_reads or_default_def get_default_def)
  have "hd (financial_results (run_simulation unnormalized_payload)) =
        last (cur_financial_results
          (accum_month unnormalized_payload (3 / 5, 3 / 10, 1 / 10) 0
             (initial_state unnormalized_payload)))"
    by (simp add: first_snapshot unnormalized_reads unnormalized_weights)
  then show ?thesis
    using step first by (simp add: unnormalized_mortgaged_state_def)
qed

lemma negative_debt_reads:
  "years negative_debt_payload = 35"
  "process_events negative_debt_payload st = st"
  "current_debt (initial_state negative_debt_payload) = - 5"
  "monthly_house_payment (initial_state negative_debt_payload) = 0"
  by (simp_all add: negative_debt_payload_def bond_stock_cash_payload_def initial_state_def
        years_def start_age_def retirement_age_of_def process_events_def or_default_def
        py_int_def)

theorem accum_month_spec_counterexample:
  "current_debt (initial_state negative_debt_payload) = - 5
   \<and> monthly_house_payment (initial_state negative_debt_payload) = 0
   \<and> ms_age (hd (financial_results (run_simulation negative_debt_payload))) = 30
   \<and> ms_month (hd (financial_results (run_simulation negative_debt_payload))) = 1
   \<and> ms_debt (hd (financial_results (run_simulation negative_debt_payload))) = - 5
   \<and> ms_debt (hd (financial_results (run_simulation negative_debt_payload))) \<noteq>
       max 0 (current_debt (initial_state negative_debt_payload)
              - monthly_house_payment (initial_state negative_debt_payload))"
proof -
  let ?w = "normalize_ratios (raw_ratios negative_debt_payload (start_age negative_debt_payload))"
  let ?st = "initial_state negative_debt_payload"
  obtain snap where snap: "cur_financial_results (accum_month negative_debt_payload ?w 0 ?st) =
        cur_financial_results ?st @ [snap]"
      "ms_age snap = cur_age ?st" "ms_month snap = 0 + 1"
      "ms_debt snap = current_debt (accum_month negative_debt_payload ?w 0 ?st)"
    using accum_month_snapshot [of negative_debt_payload ?w 0 ?st] by blast
  have "cur_age ?st = 30"
    by (simp add: negative_debt_payload_def bond_stock_cash_payload_def initial_state_def
          start_age_def or_default_def py_int_def)
  moreover have "current_debt (accum_month negative_debt_payload ?w 0 ?st) = - 5"
    by (simp add: accum_month_debt negative_debt_reads)
  moreover have "hd (financial_results (run_simulation negative_debt_payload)) = snap"
    using snap(1) by (simp add: first_snapshot negative_debt_reads)
  ultimately show ?thesis
    using snap by (simp add: negative_debt_reads)
qed

end
